theory Spec2Isabelle
  imports Main "HOL-Library.Char_ord" "HOL-Library.List_Lexorder"
begin

section \<open>Python string operations used by newMain.py\<close>

text \<open>
  Text is modelled as \<open>string\<close> (a list of 8-bit characters), so the model covers ASCII
  text. \<open>isspace\<close> lists the ASCII characters for which Python's \<open>str.isspace\<close> holds;
  \<open>str.strip()\<close> removes them from both ends.
\<close>

definition isspace :: "char \<Rightarrow> bool" where
  "isspace c = (c \<in> set [CHR 0x09, CHR 0x0A, CHR 0x0B, CHR 0x0C, CHR 0x0D,
                          CHR 0x1C, CHR 0x1D, CHR 0x1E, CHR 0x1F, CHR 0x20])"

definition lstrip :: "string \<Rightarrow> string" where
  "lstrip s = dropWhile isspace s"

definition rstrip :: "string \<Rightarrow> string" where
  "rstrip s = rev (dropWhile isspace (rev s))"

definition strip :: "string \<Rightarrow> string" where
  "strip s = rstrip (lstrip s)"

definition startswith :: "string \<Rightarrow> string \<Rightarrow> bool" where
  "startswith s p = (take (length p) s = p)"

definition endswith :: "string \<Rightarrow> string \<Rightarrow> bool" where
  "endswith s p = (length p \<le> length s \<and> drop (length s - length p) s = p)"

text \<open>\<open>str.lower()\<close> on ASCII letters.\<close>

definition lower_char :: "char \<Rightarrow> char" where
  "lower_char c =
     (case map_of (zip ''ABCDEFGHIJKLMNOPQRSTUVWXYZ'' ''abcdefghijklmnopqrstuvwxyz'') c of
        None \<Rightarrow> c
      | Some d \<Rightarrow> d)"

definition lower :: "string \<Rightarrow> string" where
  "lower s = map lower_char s"

text \<open>
  \<open>os.path.join\<close> with two arguments, as \<open>posixpath\<close> defines it: an absolute second
  argument replaces the first. (On Windows the separator is the backslash; the joined
  paths below are those of a POSIX system.)
\<close>

definition os_path_join :: "string \<Rightarrow> string \<Rightarrow> string" where
  "os_path_join a b =
     (if startswith b ''/'' then b
      else if a = [] \<or> endswith a ''/'' then a @ b
      else a @ ''/'' @ b)"







section \<open>InstallThread (newMain.py, lines 277-350)\<close>

text \<open>
  The texts passed to \<open>output_signal\<close> are message literals of the source; each
  constructor of \<open>install_msg\<close> stands for one of them, with the interpolated text as
  its argument.
\<close>

datatype install_msg =
    Msg_start
  | Msg_installing
  | Msg_interrupted
  | Msg_line string
  | Msg_warning string
  | Msg_success
  | Msg_failure
  | Msg_critical string

datatype install_event =
    Output install_msg
  | Progress int
  | Finished bool

text \<open>
  What the thread observes of its environment. One \<open>read_obs\<close> is one turn of
  \<open>for line in self._read_lines(pipe)\<close>: either a line arrives, together with the value
  the flag \<open>self._is_running\<close> has when the loop body tests it (\<open>stop()\<close> clears the flag
  from another thread), or reading raises. The end of the list is the end of the pipe.
\<close>

datatype read_obs = Read string bool | ReadRaises string

record install_world =
  upgrade_pip :: "string + string \<times> string"
  popen_error :: "string option"
  stdout_reads :: "read_obs list"
  stderr_reads :: "read_obs list"
  return_code :: int

datatype loop_exit = Eof | Interrupted | Raised string

text \<open>\<open>_run_command\<close>: the events for the captured stdout and stderr of a finished command.\<close>

definition run_command_events :: "string \<Rightarrow> string \<Rightarrow> install_event list" where
  "run_command_events out err =
     (if out \<noteq> [] then [Output (Msg_line (strip out))] else []) @
     (if err \<noteq> [] then [Output (Msg_warning (strip err))] else [])"

text \<open>The loop over the lines of stdout, lines 305-314; \<open>progress\<close> is the local variable.\<close>

fun stdout_loop :: "int \<Rightarrow> read_obs list \<Rightarrow> install_event list \<times> loop_exit" where
  "stdout_loop progress [] = ([], Eof)"
| "stdout_loop progress (ReadRaises e # rest) = ([], Raised e)"
| "stdout_loop progress (Read line running # rest) =
     (if \<not> running then ([Output Msg_interrupted, Finished False], Interrupted)
      else (let progress' = min (progress + 3) 95;
                r = stdout_loop progress' rest
            in (Output (Msg_line (strip line)) # Progress progress' # fst r, snd r)))"

text \<open>The loop over the lines of stderr, lines 316-317.\<close>

fun stderr_loop :: "read_obs list \<Rightarrow> install_event list \<times> loop_exit" where
  "stderr_loop [] = ([], Eof)"
| "stderr_loop (ReadRaises e # rest) = ([], Raised e)"
| "stderr_loop (Read line running # rest) =
     (let r = stderr_loop rest in (Output (Msg_warning (strip line)) # fst r, snd r))"

definition critical :: "string \<Rightarrow> install_event list" where
  "critical e = [Output (Msg_critical e), Finished False]"

text \<open>\<open>InstallThread.run\<close>, lines 289-330: the events emitted, in order.\<close>

definition InstallThread_run :: "install_world \<Rightarrow> install_event list" where
  "InstallThread_run w =
     Output Msg_start #
     (case upgrade_pip w of
        Inl e \<Rightarrow> critical e
      | Inr (out, err) \<Rightarrow>
          run_command_events out err @ Output Msg_installing #
          (case popen_error w of
             Some e \<Rightarrow> critical e
           | None \<Rightarrow>
               (case stdout_loop 0 (stdout_reads w) of
                  (evs, Interrupted) \<Rightarrow> evs
                | (evs, Raised e) \<Rightarrow> evs @ critical e
                | (evs, Eof) \<Rightarrow>
                    evs @
                    (case stderr_loop (stderr_reads w) of
                       (evs2, Raised e) \<Rightarrow> evs2 @ critical e
                     | (evs2, _) \<Rightarrow>
                         evs2 @
                         (if return_code w = 0
                          then [Progress 100, Output Msg_success, Finished True]
                          else [Output Msg_failure, Finished False])))))"

text \<open>The percentages passed to \<open>progress_signal\<close>, in the order of emission.\<close>

fun progress_values :: "install_event list \<Rightarrow> int list" where
  "progress_values [] = []"
| "progress_values (Progress p # evs) = p # progress_values evs"
| "progress_values (_ # evs) = progress_values evs"

section \<open>WorkerThread (newMain.py, lines 769-822)\<close>

datatype worker_error =
    Err_script_missing string
  | Err_stderr string
  | Err_critical string

datatype worker_event =
    Output_signal string
  | Error_signal worker_error
  | Finished_signal

text \<open>
  One \<open>loop_obs\<close> is what one evaluation of the loop test of line 797 sees, and, when
  the test holds, what \<open>readline\<close> then does. The flag \<open>_is_running\<close> is cleared by
  \<open>stop()\<close> and never set again; \<open>Exited b\<close> carries the value the flag has when it is
  read again at line 802.
\<close>

datatype loop_obs =
    Alive string
  | ReadFails string
  | StopSeen
  | Exited bool

datatype loop_end = LoopRaised string | LoopStopped | LoopExited bool

record worker_world =
  script_exists :: bool
  popen_raises :: "string option"
  observe :: "nat \<Rightarrow> loop_obs"
  communicate :: "string + string"

text \<open>
  The loop of lines 797-800. It runs for as long as the child process lives and no stop
  is requested, so it need not end: not returning is the value \<open>None\<close>.
\<close>

partial_function (option) worker_loop ::
  "(nat \<Rightarrow> loop_obs) \<Rightarrow> nat \<Rightarrow> (worker_event list \<times> loop_end) option" where
  "worker_loop obs i =
     (case obs i of
        Alive out \<Rightarrow>
          Option.bind (worker_loop obs (Suc i))
            (\<lambda>r. Some ((if out \<noteq> [] then [Output_signal (strip out)] else []) @ fst r, snd r))
      | ReadFails e \<Rightarrow> Some ([], LoopRaised e)
      | StopSeen \<Rightarrow> Some ([], LoopStopped)
      | Exited b \<Rightarrow> Some ([], LoopExited b))"

text \<open>What follows the loop, lines 802-807, then the \<open>except\<close> and \<open>finally\<close> clauses.\<close>

definition after_loop :: "worker_world \<Rightarrow> loop_end \<Rightarrow> worker_event list" where
  "after_loop w e =
     (case e of
        LoopRaised x \<Rightarrow> [Error_signal (Err_critical x), Finished_signal]
      | LoopStopped \<Rightarrow> [Finished_signal]
      | LoopExited running \<Rightarrow>
          (if \<not> running then [Finished_signal]
           else (case communicate w of
                   Inl x \<Rightarrow> [Error_signal (Err_critical x), Finished_signal]
                 | Inr err \<Rightarrow>
                     (if err \<noteq> [] then [Error_signal (Err_stderr (strip err))] else []) @
                     [Finished_signal])))"

text \<open>\<open>WorkerThread.run\<close>, lines 782-812: the events emitted, in order.\<close>

definition WorkerThread_run :: "string \<Rightarrow> worker_world \<Rightarrow> worker_event list option" where
  "WorkerThread_run script_path w =
     (if \<not> script_exists w
      then Some [Error_signal (Err_script_missing script_path), Finished_signal]
      else (case popen_raises w of
              Some x \<Rightarrow> Some [Error_signal (Err_critical x), Finished_signal]
            | None \<Rightarrow>
                (case worker_loop (observe w) 0 of
                   None \<Rightarrow> None
                 | Some (evs, e) \<Rightarrow> Some (evs @ after_loop w e))))"

text \<open>The session ends when some loop test fails or some read raises.\<close>

fun is_Alive :: "loop_obs \<Rightarrow> bool" where
  "is_Alive (Alive _) = True"
| "is_Alive _ = False"

section \<open>ScriptExecutor and its worker threads (newMain.py, lines 732-766, 774-780, 814-822)\<close>

datatype executor_msg =
    Exec_busy
  | Exec_starting string
  | Exec_stopping
  | Exec_nothing_to_stop
  | Exec_completed

datatype executor_event =
    Exec_output executor_msg
  | Script_started string
  | Script_finished string

text \<open>
  The child process of a worker: \<open>self.process\<close> is \<open>None\<close> until line 788 has
  started the child; the child then is alive until it exits or is killed.
\<close>

datatype child_process = No_process | Child_live | Child_exited

text \<open>
  A \<open>WorkerThread\<close> object: the arguments of its constructor, the script name that the
  slot connected at line 752 has captured, the flag \<open>_is_running\<close>, its child process,
  whether \<open>isRunning()\<close> holds of the thread, and whether \<open>run\<close> has emitted
  \<open>finished_signal\<close>.
\<close>

record worker =
  wid :: nat
  script_path_of :: string
  cwd_of :: string
  python_exec_of :: string
  script_name_of :: string
  is_running_flag :: bool
  process :: child_process
  isRunning :: bool
  finished_emitted :: bool

text \<open>
  The executor: the attribute \<open>worker_thread\<close> (the number of a worker), the workers
  created so far, and the calls of \<open>_on_script_finished\<close> that emitted signals have
  queued: \<open>finished_signal\<close> is emitted by the worker's thread, and its slot runs in
  the thread of the executor when the event loop delivers it.
\<close>

record executor =
  worker_thread :: "nat option"
  workers :: "worker list"
  queued_slots :: "string list"

definition executor_init :: executor where
  "executor_init = \<lparr>worker_thread = None, workers = [], queued_slots = []\<rparr>"

definition update_worker :: "nat \<Rightarrow> (worker \<Rightarrow> worker) \<Rightarrow> executor \<Rightarrow> executor" where
  "update_worker i f ex = ex\<lparr>workers := map (\<lambda>w. if wid w = i then f w else w) (workers ex)\<rparr>"

text \<open>The test \<open>self.worker_thread and self.worker_thread.isRunning()\<close>.\<close>

definition worker_isRunning :: "executor \<Rightarrow> bool" where
  "worker_isRunning ex =
     (case worker_thread ex of
        None \<Rightarrow> False
      | Some i \<Rightarrow> list_ex (\<lambda>w. wid w = i \<and> isRunning w) (workers ex))"

text \<open>\<open>run_script\<close>, lines 743-754.\<close>

definition run_script ::
  "executor \<Rightarrow> string \<Rightarrow> string \<Rightarrow> string \<Rightarrow> string \<Rightarrow> executor \<times> executor_event list" where
  "run_script ex script_path script_dir python_exec script_name =
     (if worker_isRunning ex then (ex, [Exec_output Exec_busy])
      else (let t = \<lparr>wid = length (workers ex), script_path_of = script_path,
                      cwd_of = script_dir, python_exec_of = python_exec,
                      script_name_of = script_name, is_running_flag = True,
                      process = No_process, isRunning = True, finished_emitted = False\<rparr>
            in (ex\<lparr>worker_thread := Some (wid t), workers := workers ex @ [t]\<rparr>,
                [Exec_output (Exec_starting script_name), Script_started script_name])))"

text \<open>
  \<open>WorkerThread.stop\<close>, lines 814-822: it clears the flag and, when \<open>self.process\<close>
  is set, terminates the child, kills it after the grace period if it still lives, and
  waits for it. It does nothing to a child that line 788 has not started yet.
\<close>

definition WorkerThread_stop :: "worker \<Rightarrow> worker" where
  "WorkerThread_stop w =
     w\<lparr>is_running_flag := False,
       process := (case process w of No_process \<Rightarrow> No_process | Child_live \<Rightarrow> Child_exited | Child_exited \<Rightarrow> Child_exited)\<rparr>"

text \<open>\<open>stop_script\<close>, lines 756-761.\<close>

definition stop_script :: "executor \<Rightarrow> executor \<times> executor_event list" where
  "stop_script ex =
     (if worker_isRunning ex
      then (case worker_thread ex of
              None \<Rightarrow> (ex, [Exec_output Exec_stopping])
            | Some i \<Rightarrow> (update_worker i WorkerThread_stop ex, [Exec_output Exec_stopping]))
      else (ex, [Exec_output Exec_nothing_to_stop]))"

text \<open>\<open>_on_script_finished\<close>, lines 763-766.\<close>

definition on_script_finished :: "executor \<Rightarrow> string \<Rightarrow> executor \<times> executor_event list" where
  "on_script_finished ex script_name =
     (ex\<lparr>worker_thread := None\<rparr>,
      [Exec_output Exec_completed, Script_finished script_name])"

text \<open>
  What the thread of a worker does, as the executor can observe it (lines 782-812).
  Line 788 starts the child, whatever the flag is. The child may exit. \<open>run\<close> reaches
  its \<open>finally\<close> clause and emits \<open>finished_signal\<close> when there is no child (the
  script is missing or starting it raised), when the child has exited, or when the flag
  is cleared (lines 797 and 802); this queues the slot. Then \<open>run\<close> returns and the
  thread is no longer running. A step that the state of the worker does not allow
  changes nothing.
\<close>

datatype thread_step = Starts_child | Child_exits | Emits_finished | Run_returns

definition worker_step :: "thread_step \<Rightarrow> worker \<Rightarrow> worker" where
  "worker_step e w =
     (case e of
        Starts_child \<Rightarrow>
          (if isRunning w \<and> \<not> finished_emitted w \<and> process w = No_process
           then w\<lparr>process := Child_live\<rparr> else w)
      | Child_exits \<Rightarrow> (if process w = Child_live then w\<lparr>process := Child_exited\<rparr> else w)
      | Emits_finished \<Rightarrow>
          (if isRunning w \<and> \<not> finished_emitted w \<and>
              (process w \<noteq> Child_live \<or> \<not> is_running_flag w)
           then w\<lparr>finished_emitted := True\<rparr> else w)
      | Run_returns \<Rightarrow>
          (if isRunning w \<and> finished_emitted w then w\<lparr>isRunning := False\<rparr> else w))"

text \<open>The script names of the slots that a step of worker \<open>i\<close> queues.\<close>

definition newly_finished :: "nat \<Rightarrow> thread_step \<Rightarrow> executor \<Rightarrow> string list" where
  "newly_finished i e ex =
     map script_name_of
       (filter (\<lambda>w. wid w = i \<and> \<not> finished_emitted w \<and> finished_emitted (worker_step e w))
          (workers ex))"

text \<open>What can happen to an executor, and the state after a sequence of such steps.\<close>

datatype executor_action =
    Run_script string string string string
  | Stop_script
  | Thread nat thread_step
  | Slot_runs

definition executor_step :: "executor \<Rightarrow> executor_action \<Rightarrow> executor" where
  "executor_step ex a =
     (case a of
        Run_script p d e n \<Rightarrow> fst (run_script ex p d e n)
      | Stop_script \<Rightarrow> fst (stop_script ex)
      | Thread i e \<Rightarrow>
          (update_worker i (worker_step e) ex)
            \<lparr>queued_slots := queued_slots ex @ newly_finished i e ex\<rparr>
      | Slot_runs \<Rightarrow>
          (case queued_slots ex of
             [] \<Rightarrow> ex
           | n # rest \<Rightarrow> fst (on_script_finished (ex\<lparr>queued_slots := rest\<rparr>) n)))"

definition executor_after :: "executor_action list \<Rightarrow> executor" where
  "executor_after acts = foldl executor_step executor_init acts"

section \<open>DependencyManagement: state and virtual environments (newMain.py, lines 414-426, 537-570)\<close>

datatype dm_msg =
    Msg_analysis_error string
  | Msg_no_requirements
  | Msg_parse_error string string
  | Msg_problems "string list"
  | Msg_all_satisfied
  | Msg_check_error string
  | Msg_venv_created
  | Msg_venv_failed string
  | Msg_venv_found string
  | Msg_venv_busy
  | Msg_venv_creating
  | Msg_nothing_to_install
  | Msg_install_busy
  | Msg_install_starting string
  | Msg_install_ok
  | Msg_install_errors

text \<open>
  The effects of a method, in order: the signals it emits and the threads it starts.
\<close>

datatype dm_effect =
    Log_output dm_msg
  | Progress_signal int
  | Venv_created_signal string string
  | Dependencies_installed_signal string bool
  | Venv_thread_start string
  | Install_thread_start string string

record venv_thread_obj =
  venv_path :: string
  venv_script_dir :: string
  venv_isRunning :: bool

record install_thread_obj =
  install_script_dir :: string
  install_python_exec :: string
  install_isRunning :: bool

record dependency_management =
  installed_packages_cache :: "(string \<rightharpoonup> string) option"
  install_thread :: "install_thread_obj option"
  venv_thread :: "venv_thread_obj option"

definition dm_init :: dependency_management where
  "dm_init = \<lparr>installed_packages_cache = None, install_thread = None, venv_thread = None\<rparr>"




text \<open>\<open>_on_venv_creation_finished\<close>, lines 537-543.\<close>

definition on_venv_creation_finished :: "string \<Rightarrow> bool \<Rightarrow> string \<Rightarrow> dm_effect list" where
  "on_venv_creation_finished script_dir success result =
     (if success then [Log_output Msg_venv_created, Venv_created_signal script_dir result]
      else [Log_output (Msg_venv_failed result)]) @ [Progress_signal 0]"







section \<open>DependencyManagement: the package index and the satisfaction check (lines 499-535, 605-614)\<close>

text \<open>
  \<open>get_installed_packages\<close>, lines 605-611. \<open>dists\<close> is what \<open>distributions()\<close> yields
  when it is called: the pairs of \<open>metadata["Name"]\<close> and \<open>version\<close>, in order. In the
  dictionary built from them a later distribution replaces an earlier one of the same
  lower-cased name.
\<close>

definition build_index :: "(string \<times> string) list \<Rightarrow> (string \<rightharpoonup> string)" where
  "build_index dists = foldl (\<lambda>m (n, v). m(lower n \<mapsto> v)) Map.empty dists"

definition get_installed_packages ::
  "dependency_management \<Rightarrow> (string \<times> string) list \<Rightarrow>
   (string \<rightharpoonup> string) \<times> dependency_management" where
  "get_installed_packages dm dists =
     (case installed_packages_cache dm of
        None \<Rightarrow> (build_index dists, dm\<lparr>installed_packages_cache := Some (build_index dists)\<rparr>)
      | Some c \<Rightarrow> (c, dm))"

definition clear_packages_cache :: "dependency_management \<Rightarrow> dependency_management" where
  "clear_packages_cache dm = dm\<lparr>installed_packages_cache := None\<rparr>"

text \<open>
  The library \<open>packaging\<close> is not part of the repository; the check takes what it uses of
  it as a parameter. \<open>Requirement\<close> parses a line (\<open>Inl\<close>: it raises, with the text of
  the exception); \<open>req_name\<close>, \<open>req_specifier\<close> and \<open>req_str\<close> are \<open>req.name\<close>,
  \<open>req.specifier\<close> and \<open>str(req)\<close>; \<open>spec_len\<close> is the number of clauses of a
  specifier set, whose truth value is \<open>spec_len > 0\<close>; \<open>spec_str\<close> is its \<open>str\<close>;
  \<open>spec_contains\<close> is \<open>SpecifierSet.contains\<close> (\<open>Inl\<close>: it raises).
\<close>

record ('r, 's) packaging =
  Requirement :: "string \<Rightarrow> string + 'r"
  req_name :: "'r \<Rightarrow> string"
  req_specifier :: "'r \<Rightarrow> 's"
  req_str :: "'r \<Rightarrow> string"
  spec_len :: "'s \<Rightarrow> nat"
  spec_str :: "'s \<Rightarrow> string"
  spec_contains :: "'s \<Rightarrow> string \<Rightarrow> string + bool"

text \<open>
  The two Russian words of the message of line 522 ("required" and "installed"), as
  the bytes of their UTF-8 encoding.
\<close>

definition word_required :: string where
  "word_required =
     [CHR 0xD1, CHR 0x82, CHR 0xD1, CHR 0x80, CHR 0xD0, CHR 0xB5, CHR 0xD0, CHR 0xB1,
      CHR 0xD1, CHR 0x83, CHR 0xD0, CHR 0xB5, CHR 0xD1, CHR 0x82, CHR 0xD1, CHR 0x81,
      CHR 0xD1, CHR 0x8F]"

definition word_installed :: string where
  "word_installed =
     [CHR 0xD1, CHR 0x83, CHR 0xD1, CHR 0x81, CHR 0xD1, CHR 0x82, CHR 0xD0, CHR 0xB0,
      CHR 0xD0, CHR 0xBD, CHR 0xD0, CHR 0xBE, CHR 0xD0, CHR 0xB2, CHR 0xD0, CHR 0xBB,
      CHR 0xD0, CHR 0xB5, CHR 0xD0, CHR 0xBD, CHR 0xD0, CHR 0xBE]"

definition version_mismatch_entry :: "string \<Rightarrow> string \<Rightarrow> string \<Rightarrow> string" where
  "version_mismatch_entry pkg_name specifier installed_version =
     pkg_name @ '' ('' @ word_required @ '' '' @ specifier @ '', '' @ word_installed @ '' '' @
     installed_version @ '')''"

text \<open>
  The body of the \<open>try\<close> of lines 515-522 for one requirement line: \<open>Inl\<close> when it
  raises, otherwise the entry appended to \<open>missing\<close>, if any.
\<close>

definition check_requirement ::
  "('r, 's) packaging \<Rightarrow> (string \<rightharpoonup> string) \<Rightarrow> string \<Rightarrow> string + string option" where
  "check_requirement P installed line =
     (case Requirement P line of
        Inl e \<Rightarrow> Inl e
      | Inr req \<Rightarrow>
          (let pkg_name = lower (req_name P req) in
           case installed pkg_name of
             None \<Rightarrow> Inr (Some (req_str P req))
           | Some ver \<Rightarrow>
               if 0 < spec_len P (req_specifier P req)
               then (case spec_contains P (req_specifier P req) ver of
                       Inl e \<Rightarrow> Inl e
                     | Inr True \<Rightarrow> Inr None
                     | Inr False \<Rightarrow>
                         Inr (Some (version_mismatch_entry pkg_name
                                      (spec_str P (req_specifier P req)) ver)))
               else Inr None))"

text \<open>
  The loop of lines 514-525: the list \<open>missing\<close> and the diagnostics logged, in order.
\<close>

fun check_requirements ::
  "('r, 's) packaging \<Rightarrow> (string \<rightharpoonup> string) \<Rightarrow> string list \<Rightarrow> string list \<times> dm_effect list"
  where
  "check_requirements P installed [] = ([], [])"
| "check_requirements P installed (line # rest) =
     (let r = check_requirements P installed rest in
      case check_requirement P installed line of
        Inl e \<Rightarrow> (fst r, Log_output (Msg_parse_error line e) # snd r)
      | Inr None \<Rightarrow> r
      | Inr (Some entry) \<Rightarrow> (entry # fst r, snd r))"

text \<open>
  The file \<open>requirements.txt\<close> of a script: absent, unreadable (opening or decoding it
  raises), or its lines. Lines 510-512 keep the stripped lines that are neither empty nor
  comments.
\<close>

datatype requirements_file = No_file | Unreadable string | File_lines "string list"

definition requirement_lines :: "string list \<Rightarrow> string list" where
  "requirement_lines ls =
     map strip (filter (\<lambda>l. strip l \<noteq> [] \<and> \<not> startswith (strip l) ''#'') ls)"

text \<open>\<open>check_dependencies\<close>, lines 499-535: the result, the object and the log.\<close>

definition check_dependencies ::
  "('r, 's) packaging \<Rightarrow> dependency_management \<Rightarrow> (string \<times> string) list \<Rightarrow>
   requirements_file \<Rightarrow> bool \<times> dependency_management \<times> dm_effect list" where
  "check_dependencies P dm dists file =
     (case file of
        No_file \<Rightarrow> (True, dm, [Log_output Msg_no_requirements])
      | Unreadable e \<Rightarrow>
          (False, snd (get_installed_packages dm dists), [Log_output (Msg_check_error e)])
      | File_lines ls \<Rightarrow>
          (let installed = fst (get_installed_packages dm dists);
               dm' = snd (get_installed_packages dm dists);
               r = check_requirements P installed (requirement_lines ls)
           in if fst r \<noteq> []
              then (False, dm', snd r @ [Log_output (Msg_problems (fst r))])
              else (True, dm', snd r @ [Log_output Msg_all_satisfied])))"

text \<open>The list \<open>missing\<close> that a call reported, read off its log.\<close>

fun reported_missing :: "dm_effect list \<Rightarrow> string list" where
  "reported_missing [] = []"
| "reported_missing (Log_output (Msg_problems m) # evs) = m @ reported_missing evs"
| "reported_missing (_ # evs) = reported_missing evs"

text \<open>The lines of the log that report a requirement line that could not be handled.\<close>

fun diagnosed_lines :: "dm_effect list \<Rightarrow> string list" where
  "diagnosed_lines [] = []"
| "diagnosed_lines (Log_output (Msg_parse_error l e) # evs) = l # diagnosed_lines evs"
| "diagnosed_lines (_ # evs) = diagnosed_lines evs"

text \<open>
  An instance of the library for the examples below: what \<open>packaging\<close> does on the
  requirement lines and versions that the examples use. \<open>Requirement("requests>=2,<3")\<close>
  has the name \<open>requests\<close> and the clauses \<open><3\<close> and \<open>>=2\<close>; the \<open>str\<close> of a specifier
  set lists its clauses sorted and joined by commas, and the \<open>str\<close> of a requirement
  without extras, URL and marker is its name followed by that. Lines and versions that
  the examples do not use are rejected.
\<close>

record demo_requirement =
  demo_name :: string
  demo_clauses :: "string list"

fun join_commas :: "string list \<Rightarrow> string" where
  "join_commas [] = []"
| "join_commas [x] = x"
| "join_commas (x # y # ys) = x @ '','' @ join_commas (y # ys)"

definition demo_Requirement :: "string \<Rightarrow> string + demo_requirement" where
  "demo_Requirement line =
     (if line = ''requests>=2,<3''
        then Inr \<lparr>demo_name = ''requests'', demo_clauses = [''<3'', ''>=2'']\<rparr>
      else if line = ''Requests>=2,<3''
        then Inr \<lparr>demo_name = ''Requests'', demo_clauses = [''<3'', ''>=2'']\<rparr>
      else if line = ''numpy''
        then Inr \<lparr>demo_name = ''numpy'', demo_clauses = []\<rparr>
      else Inl ''invalid requirement'')"

definition demo_contains :: "string list \<Rightarrow> string \<Rightarrow> string + bool" where
  "demo_contains clauses version =
     (if clauses = [] then Inr True
      else if clauses = [''<3'', ''>=2''] \<and> version = ''2.31.0'' then Inr True
      else if clauses = [''<3'', ''>=2''] \<and> version = ''3.0.0'' then Inr False
      else if clauses = [''<3'', ''>=2''] \<and> version = ''1.2.3'' then Inr False
      else Inl ''invalid version'')"

definition demo_packaging :: "(demo_requirement, string list) packaging" where
  "demo_packaging =
     \<lparr>Requirement = demo_Requirement, req_name = demo_name, req_specifier = demo_clauses,
      req_str = (\<lambda>r. demo_name r @ join_commas (demo_clauses r)),
      spec_len = length, spec_str = join_commas, spec_contains = demo_contains\<rparr>"

section \<open>DependencyManagement: installation (lines 575-603)\<close>

definition basename :: "string \<Rightarrow> string" where
  "basename p = rev (takeWhile (\<lambda>c. c \<noteq> CHR ''/'') (rev p))"

definition install_thread_running :: "dependency_management \<Rightarrow> bool" where
  "install_thread_running dm =
     (case install_thread dm of None \<Rightarrow> False | Some t \<Rightarrow> install_isRunning t)"

text \<open>\<open>install_dependencies\<close>, lines 575-594.\<close>

definition install_dependencies ::
  "dependency_management \<Rightarrow> string list \<Rightarrow> string \<Rightarrow> string \<Rightarrow>
   dependency_management \<times> dm_effect list" where
  "install_dependencies dm existing script_dir python_exec =
     (let requirements_path = os_path_join script_dir ''requirements.txt''
      in if requirements_path \<notin> set existing
         then (dm, [Log_output Msg_nothing_to_install, Progress_signal 0,
                    Dependencies_installed_signal script_dir True])
         else if install_thread_running dm
         then (dm, [Log_output Msg_install_busy])
         else (dm\<lparr>install_thread := Some \<lparr>install_script_dir = script_dir,
                                            install_python_exec = python_exec,
                                            install_isRunning = True\<rparr>\<rparr>,
               [Log_output (Msg_install_starting (basename script_dir)),
                Install_thread_start python_exec requirements_path]))"

text \<open>
  \<open>_on_install_finished\<close>, lines 596-603, the slot of the thread's \<open>finished_signal\<close>;
  \<open>script_dir\<close> is the one captured at line 592.
\<close>

definition on_install_finished ::
  "dependency_management \<Rightarrow> string \<Rightarrow> bool \<Rightarrow> dependency_management \<times> dm_effect list" where
  "on_install_finished dm script_dir success =
     (clear_packages_cache dm,
      [Log_output (if success then Msg_install_ok else Msg_install_errors),
       Progress_signal 0,
       Dependencies_installed_signal script_dir success])"

section \<open>The packages of the interpreters\<close>

text \<open>
  Two tools outside the repository decide what the satisfaction check sees after an
  installation. The installation runs \<open>python_exec -m pip install -r requirements.txt\<close>
  (line 298) with the interpreter of the script's environment (lines 546-554), and pip
  installs into the environment of the interpreter that runs it. The index is built from
  \<open>distributions()\<close> (line 609), called without a path, which lists the distributions of
  the interpreter that runs the application. A \<open>package_world\<close> gives the distributions
  of every interpreter and the interpreter of the application (\<open>sys.executable\<close>).
\<close>

record package_world =
  sys_executable :: string
  site_packages :: "string \<Rightarrow> (string \<times> string) list"

definition distributions :: "package_world \<Rightarrow> (string \<times> string) list" where
  "distributions w = site_packages w (sys_executable w)"

text \<open>
  A successful \<open>pip install\<close> run by \<open>python_exec\<close> that makes the distributions
  \<open>installed\<close> available: they replace the distributions of the same name in the
  environment of \<open>python_exec\<close>.
\<close>

definition pip_install ::
  "package_world \<Rightarrow> string \<Rightarrow> (string \<times> string) list \<Rightarrow> package_world" where
  "pip_install w python_exec installed =
     w\<lparr>site_packages := (site_packages w)
          (python_exec :=
             filter (\<lambda>d. lower (fst d) \<notin> set (map (\<lambda>i. lower (fst i)) installed))
               (site_packages w python_exec) @ installed)\<rparr>"

text \<open>
  The satisfaction check that follows a successful installation for the script in
  \<open>script_dir\<close>: pip has run under \<open>python_exec\<close>, the slot \<open>_on_install_finished\<close>
  has run, and \<open>check_dependencies\<close> reads the manifest again.
\<close>

definition check_after_install ::
  "('r, 's) packaging \<Rightarrow> package_world \<Rightarrow> dependency_management \<Rightarrow> string \<Rightarrow> string \<Rightarrow>
   (string \<times> string) list \<Rightarrow> requirements_file \<Rightarrow>
   bool \<times> dependency_management \<times> dm_effect list" where
  "check_after_install P w dm script_dir python_exec installed manifest =
     check_dependencies P (fst (on_install_finished dm script_dir True))
       (distributions (pip_install w python_exec installed)) manifest"

section \<open>MainWindow: the run request (lines 1350-1374, 1544-1605)\<close>

datatype mw_msg =
    Mw_installing_first
  | Mw_run_cancelled
  | Mw_install_ok
  | Mw_retrying
  | Mw_other_script string
  | Mw_install_failed string
  | Mw_script_missing string
  | Mw_waiting_for_venv

text \<open>
  The effects of a handler of the window, in order; a call of a method of another
  object, or of \<open>_prepare_and_run_script\<close>, is an effect with the arguments of the call.
\<close>

datatype mw_effect =
    Mw_log mw_msg
  | Call_run_script string string string string
  | Call_install_dependencies string string
  | Call_prepare_and_run_script string
  | Call_clear_packages_cache
  | Progress_bar_reset

text \<open>\<open>ScriptOperations.get_script_dir\<close> and \<open>get_script_path\<close>, lines 405-411.\<close>

definition get_script_dir :: "string \<Rightarrow> string" where
  "get_script_dir script_name = os_path_join ''scripts'' script_name"

definition get_script_path :: "string list \<Rightarrow> string \<Rightarrow> string option" where
  "get_script_path existing script_name =
     (let script_path = os_path_join (os_path_join ''scripts'' script_name) ''script.py''
      in if script_path \<in> set existing then Some script_path else None)"

text \<open>
  \<open>_check_and_install_dependencies_then_run\<close>, lines 1350-1374, given the result of
  \<open>check_dependencies\<close> and the answer to the question.
\<close>

definition check_and_install_dependencies_then_run ::
  "bool \<Rightarrow> bool \<Rightarrow> string \<Rightarrow> string \<Rightarrow> string \<Rightarrow> string \<Rightarrow> mw_effect list" where
  "check_and_install_dependencies_then_run dependencies_ok reply_yes
       script_name script_dir python_exec script_path =
     (if dependencies_ok
      then [Call_run_script script_path script_dir python_exec script_name]
      else if reply_yes
      then [Mw_log Mw_installing_first, Call_install_dependencies script_dir python_exec]
      else [Mw_log Mw_run_cancelled])"

text \<open>
  \<open>_prepare_and_run_script\<close>, lines 1583-1605, given the result of
  \<open>create_or_get_venv\<close> for the directory of the script.
\<close>

definition prepare_and_run_script ::
  "string list \<Rightarrow> string option \<Rightarrow> bool \<Rightarrow> bool \<Rightarrow> string \<Rightarrow> mw_effect list" where
  "prepare_and_run_script existing venv_result dependencies_ok reply_yes script_name =
     (case get_script_path existing script_name of
        None \<Rightarrow> [Mw_log (Mw_script_missing script_name)]
      | Some script_path \<Rightarrow>
          (case venv_result of
             Some python_exec \<Rightarrow>
               check_and_install_dependencies_then_run dependencies_ok reply_yes
                 script_name (get_script_dir script_name) python_exec script_path
           | None \<Rightarrow> [Mw_log Mw_waiting_for_venv]))"

text \<open>
  \<open>_on_dependencies_installed\<close>, lines 1544-1561, the slot of
  \<open>dependencies_installed_signal\<close>; its first parameter receives the first value of
  the signal.
\<close>

definition on_dependencies_installed :: "string option \<Rightarrow> string \<Rightarrow> bool \<Rightarrow> mw_effect list" where
  "on_dependencies_installed current_script_name script_name success =
     (if success
      then Mw_log Mw_install_ok #
           (if Some script_name = current_script_name
            then [Mw_log Mw_retrying, Call_prepare_and_run_script script_name]
            else [Mw_log (Mw_other_script script_name)])
      else [Mw_log (Mw_install_failed script_name)]) @
     [Call_clear_packages_cache, Progress_bar_reset]"

text \<open>
  A run request for \<open>script_name\<close>, the selected script, whose environment exists and
  whose dependencies are not satisfied; the user accepts the installation and the
  installation thread ends with \<open>success\<close>. The function follows the values through the
  calls: the arguments of \<open>install_dependencies\<close>, the directory the thread's slot has
  captured, the values of \<open>dependencies_installed_signal\<close>, and the effects of the
  window's slot on them.
\<close>

fun install_request :: "mw_effect list \<Rightarrow> (string \<times> string) option" where
  "install_request [] = None"
| "install_request (Call_install_dependencies d e # _) = Some (d, e)"
| "install_request (_ # evs) = install_request evs"

fun installed_signal :: "dm_effect list \<Rightarrow> (string \<times> bool) option" where
  "installed_signal [] = None"
| "installed_signal (Dependencies_installed_signal d ok # _) = Some (d, ok)"
| "installed_signal (_ # evs) = installed_signal evs"

definition run_request_with_install ::
  "string list \<Rightarrow> string \<Rightarrow> string \<Rightarrow> bool \<Rightarrow> mw_effect list" where
  "run_request_with_install existing script_name python_exec success =
     (case install_request
             (prepare_and_run_script existing (Some python_exec) False True script_name) of
        None \<Rightarrow> []
      | Some (script_dir, exec) \<Rightarrow>
          (case install_thread (fst (install_dependencies dm_init existing script_dir exec)) of
             None \<Rightarrow> []
           | Some t \<Rightarrow>
               (case installed_signal
                       (snd (on_install_finished
                               (fst (install_dependencies dm_init existing script_dir exec))
                               (install_script_dir t) success)) of
                  None \<Rightarrow> []
                | Some (d, ok) \<Rightarrow> on_dependencies_installed (Some script_name) d ok)))"

section \<open>DependencyManagement: the requirement analyzer (lines 428-491)\<close>







section \<open>Predicates of the properties\<close>

text \<open>
  The installation completes successfully when the upgrade of pip and the start of the
  installation do not raise, every line of stdout arrives while \<open>_is_running\<close> is set,
  every line of stderr arrives, and the exit status of pip is 0 (line 320). In every
  other case it fails (a step raises, or the exit status is not 0) or is interrupted (a
  line of stdout arrives after \<open>stop()\<close> has cleared the flag).
\<close>

fun arrives_running :: "read_obs \<Rightarrow> bool" where
  "arrives_running (Read line running) = running"
| "arrives_running (ReadRaises e) = False"

fun arrives :: "read_obs \<Rightarrow> bool" where
  "arrives (Read line running) = True"
| "arrives (ReadRaises e) = False"

definition install_completes :: "install_world \<Rightarrow> bool" where
  "install_completes w =
     (\<not> isl (upgrade_pip w) \<and> popen_error w = None \<and>
      list_all arrives_running (stdout_reads w) \<and>
      list_all arrives (stderr_reads w) \<and> return_code w = 0)"


text \<open>
  A version satisfies a specifier set that has no clause, or one that contains it. A
  requirement line is unmet when it parses and its package is absent from the index or
  installed at a version that does not satisfy its specifier set.
\<close>

definition satisfied_by :: "('r, 's) packaging \<Rightarrow> 's \<Rightarrow> string \<Rightarrow> bool" where
  "satisfied_by P spec ver = (spec_len P spec = 0 \<or> spec_contains P spec ver = Inr True)"

definition unmet :: "('r, 's) packaging \<Rightarrow> (string \<rightharpoonup> string) \<Rightarrow> string \<Rightarrow> bool" where
  "unmet P inst line =
     (case Requirement P line of
        Inl e \<Rightarrow> False
      | Inr req \<Rightarrow>
          (case inst (lower (req_name P req)) of
             None \<Rightarrow> True
           | Some ver \<Rightarrow> \<not> satisfied_by P (req_specifier P req) ver))"

text \<open>The library does not raise when it compares the installed versions.\<close>

definition comparison_never_raises ::
  "('r, 's) packaging \<Rightarrow> (string \<rightharpoonup> string) \<Rightarrow> string list \<Rightarrow> bool" where
  "comparison_never_raises P inst lines =
     (\<forall>l \<in> set lines. \<forall>req ver.
        Requirement P l = Inr req \<longrightarrow> inst (lower (req_name P req)) = Some ver \<longrightarrow>
        \<not> isl (spec_contains P (req_specifier P req) ver))"

text \<open>The entry that line 520 or line 522 appends for an unmet requirement.\<close>

definition missing_entry :: "('r, 's) packaging \<Rightarrow> (string \<rightharpoonup> string) \<Rightarrow> 'r \<Rightarrow> string" where
  "missing_entry P inst req =
     (case inst (lower (req_name P req)) of
        None \<Rightarrow> req_str P req
      | Some ver \<Rightarrow>
          version_mismatch_entry (lower (req_name P req)) (spec_str P (req_specifier P req)) ver)"

section \<open>Example inputs\<close>

text \<open>An installation whose pip prints three lines and exits with status 0.\<close>

definition install_world_ok :: install_world where
  "install_world_ok =
     \<lparr>upgrade_pip = Inr ([], []), popen_error = None,
      stdout_reads = [Read ''Collecting requests'' True, Read ''Downloading'' True,
                      Read ''Installing'' True],
      stderr_reads = [], return_code = 0\<rparr>"

text \<open>The same installation, with pip exiting with status 1.\<close>

definition install_world_failed :: install_world where
  "install_world_failed =
     \<lparr>upgrade_pip = Inr ([], []), popen_error = None,
      stdout_reads = [Read ''Collecting requests'' True, Read ''Downloading'' True,
                      Read ''Installing'' True],
      stderr_reads = [Read ''ERROR: No matching distribution'' True], return_code = 1\<rparr>"

text \<open>A child that prints two lines; the stop request is seen at the third loop test.\<close>

definition stopped_world :: worker_world where
  "stopped_world =
     \<lparr>script_exists = True, popen_raises = None,
      observe = (\<lambda>i. if i = 0 then Alive ''one'' else if i = 1 then Alive ''two''
                      else StopSeen),
      communicate = Inr []\<rparr>"

text \<open>Two ways of writing the name \<open>requests\<close> in another letter case.\<close>

definition capitalised :: "string \<Rightarrow> string" where
  "capitalised n = (if n = ''requests'' then ''Requests'' else n)"

definition upper_cased :: "string \<Rightarrow> string" where
  "upper_cased n = (if n = ''requests'' then ''REQUESTS'' else n)"



text \<open>
  An application run by \<open>/usr/bin/python3\<close>, whose interpreter has \<open>numpy\<close>, and a
  script whose environment is empty.
\<close>

definition demo_world :: package_world where
  "demo_world =
     \<lparr>sys_executable = ''/usr/bin/python3'',
      site_packages = (\<lambda>p. if p = ''/usr/bin/python3'' then [(''numpy'', ''1.26.0'')] else [])\<rparr>"

text \<open>
  The script \<open>a\<close> is started and stopped at once, before its thread has started the
  child; then the thread runs and the slot of its \<open>finished_signal\<close> is delivered.
\<close>

definition stop_before_start :: "executor_action list" where
  "stop_before_start =
     [Run_script ''scripts/a/script.py'' ''scripts/a'' ''scripts/a/.venv/bin/python'' ''a'',
      Stop_script,
      Thread 0 Starts_child, Thread 0 Emits_finished, Thread 0 Run_returns,
      Slot_runs]"

text \<open>
  The script \<open>a\<close> runs until its child exits; \<open>b\<close> is started after the thread of \<open>a\<close>
  has returned and before the slot of its \<open>finished_signal\<close> is delivered.
\<close>

definition stale_slot :: "executor_action list" where
  "stale_slot =
     [Run_script ''scripts/a/script.py'' ''scripts/a'' ''scripts/a/.venv/bin/python'' ''a'',
      Thread 0 Starts_child, Thread 0 Child_exits, Thread 0 Emits_finished, Thread 0 Run_returns,
      Run_script ''scripts/b/script.py'' ''scripts/b'' ''scripts/b/.venv/bin/python'' ''b'',
      Thread 1 Starts_child,
      Slot_runs]"

section \<open>Properties of InstallThread\<close>

lemma progress_values_append:
  "progress_values (xs @ ys) = progress_values xs @ progress_values ys"
  by (induction xs rule: progress_values.induct) simp_all

lemma progress_values_critical [simp]: "progress_values (critical e) = []"
  by (simp add: critical_def)

lemma progress_values_run_command [simp]: "progress_values (run_command_events out err) = []"
  by (simp add: run_command_events_def)

lemma stderr_loop_no_progress [simp]: "progress_values (fst (stderr_loop obs)) = []"
  by (induction obs rule: stderr_loop.induct) (simp_all add: Let_def)

lemma stdout_loop_bounds:
  "q \<in> set (progress_values (fst (stdout_loop p obs))) \<Longrightarrow> min (p + 3) 95 \<le> q \<and> q \<le> 95"
proof (induction p obs arbitrary: q rule: stdout_loop.induct)
  case (3 progress line running rest)
  show ?case
  proof (cases running)
    case False
    with "3.prems" show ?thesis by simp
  next
    case True
    with "3.prems" have
      "q = min (progress + 3) 95 \<or>
       q \<in> set (progress_values (fst (stdout_loop (min (progress + 3) 95) rest)))"
      by (simp add: Let_def)
    then show ?thesis
    proof
      assume "q = min (progress + 3) 95"
      then show ?thesis by simp
    next
      assume "q \<in> set (progress_values (fst (stdout_loop (min (progress + 3) 95) rest)))"
      with "3.IH" [of "min (progress + 3) 95" q] True show ?thesis by simp linarith
    qed
  qed
qed simp_all

lemma stdout_loop_sorted: "sorted (progress_values (fst (stdout_loop p obs)))"
proof (induction p obs rule: stdout_loop.induct)
  case (3 progress line running rest)
  show ?case
  proof (cases running)
    case False
    then show ?thesis by simp
  next
    case True
    have "\<forall>q \<in> set (progress_values (fst (stdout_loop (min (progress + 3) 95) rest))).
            min (progress + 3) 95 \<le> q"
    proof
      fix q
      assume "q \<in> set (progress_values (fst (stdout_loop (min (progress + 3) 95) rest)))"
      from stdout_loop_bounds [OF this] show "min (progress + 3) 95 \<le> q" by linarith
    qed
    with True "3.IH" [of "min (progress + 3) 95"] show ?thesis by (simp add: Let_def)
  qed
qed simp_all

lemma stdout_loop_no_finished_True:
  "Finished True \<notin> set (fst (stdout_loop p obs))"
  by (induction p obs rule: stdout_loop.induct) (simp_all add: Let_def)

lemma stderr_loop_no_finished_True:
  "Finished True \<notin> set (fst (stderr_loop obs))"
  by (induction obs rule: stderr_loop.induct) (simp_all add: Let_def)

lemma stderr_loop_not_Interrupted: "snd (stderr_loop obs) \<noteq> Interrupted"
  by (induction obs rule: stderr_loop.induct) (simp_all add: Let_def)

lemma stdout_loop_Eof_iff: "snd (stdout_loop p obs) = Eof \<longleftrightarrow> list_all arrives_running obs"
  by (induction p obs rule: stdout_loop.induct) (simp_all add: Let_def)

lemma stderr_loop_Eof_iff: "snd (stderr_loop obs) = Eof \<longleftrightarrow> list_all arrives obs"
  by (induction obs rule: stderr_loop.induct) (simp_all add: Let_def)

lemma install_completes_loops:
  "install_completes w \<longleftrightarrow>
     (\<not> isl (upgrade_pip w) \<and> popen_error w = None \<and>
      snd (stdout_loop 0 (stdout_reads w)) = Eof \<and>
      snd (stderr_loop (stderr_reads w)) = Eof \<and> return_code w = 0)"
  by (simp add: install_completes_def stdout_loop_Eof_iff stderr_loop_Eof_iff)

lemma run_progress_shape:
  "progress_values (InstallThread_run w) =
     (if isl (upgrade_pip w) \<or> popen_error w \<noteq> None then []
      else progress_values (fst (stdout_loop 0 (stdout_reads w))) @
           (if install_completes w then [100] else []))"
proof (cases "upgrade_pip w")
  case (Inl e)
  then show ?thesis by (simp add: InstallThread_run_def)
next
  case (Inr oe)
  obtain out err where oe: "oe = (out, err)" by (cases oe)
  show ?thesis
  proof (cases "popen_error w")
    case (Some e)
    with Inr oe show ?thesis by (simp add: InstallThread_run_def progress_values_append)
  next
    case None
    obtain evs ex where so: "stdout_loop 0 (stdout_reads w) = (evs, ex)"
      by (cases "stdout_loop 0 (stdout_reads w)")
    obtain evs2 ex2 where se: "stderr_loop (stderr_reads w) = (evs2, ex2)"
      by (cases "stderr_loop (stderr_reads w)")
    have e2: "progress_values evs2 = []"
      using stderr_loop_no_progress [of "stderr_reads w"] se by simp
    have n2: "ex2 \<noteq> Interrupted"
      using stderr_loop_not_Interrupted [of "stderr_reads w"] se by simp
    show ?thesis
      using Inr oe None so se e2 n2
      by (cases ex; cases ex2)
         (simp_all add: InstallThread_run_def install_completes_loops progress_values_append)
  qed
qed

lemma run_finished_True_iff:
  "Finished True \<in> set (InstallThread_run w) \<longleftrightarrow> install_completes w"
proof (cases "upgrade_pip w")
  case (Inl e)
  then show ?thesis by (simp add: InstallThread_run_def install_completes_loops critical_def)
next
  case (Inr oe)
  obtain out err where oe: "oe = (out, err)" by (cases oe)
  have rc: "Finished True \<notin> set (run_command_events out err)"
    by (simp add: run_command_events_def)
  show ?thesis
  proof (cases "popen_error w")
    case (Some e)
    with Inr oe rc show ?thesis
      by (simp add: InstallThread_run_def install_completes_loops critical_def)
  next
    case None
    obtain evs ex where so: "stdout_loop 0 (stdout_reads w) = (evs, ex)"
      by (cases "stdout_loop 0 (stdout_reads w)")
    obtain evs2 ex2 where se: "stderr_loop (stderr_reads w) = (evs2, ex2)"
      by (cases "stderr_loop (stderr_reads w)")
    have e1: "Finished True \<notin> set evs"
      using stdout_loop_no_finished_True [of 0 "stdout_reads w"] so by simp
    have e2: "Finished True \<notin> set evs2"
      using stderr_loop_no_finished_True [of "stderr_reads w"] se by simp
    have n2: "ex2 \<noteq> Interrupted"
      using stderr_loop_not_Interrupted [of "stderr_reads w"] se by simp
    show ?thesis
      using Inr oe None so se e1 e2 n2 rc
      by (cases ex; cases ex2)
         (simp_all add: InstallThread_run_def install_completes_loops critical_def)
  qed
qed

text \<open>
  Claim C7. In every run of the installation thread the percentages passed to
  \<open>progress_signal\<close> are non-decreasing. They are some values below 100 (at most 95),
  followed by exactly one 100 when the installation completes successfully, that is
  when nothing raises, no stop is seen and the exit status of pip is 0; and by nothing
  when the installation fails or is interrupted: such a run never emits 100. The thread
  emits \<open>finished_signal(True)\<close> in the first case only.
\<close>

theorem install_progress_monotone_capped:
  "sorted (progress_values (InstallThread_run w)) \<and>
   (\<exists>qs. (\<forall>q \<in> set qs. 0 < q \<and> q \<le> 95) \<and>
         progress_values (InstallThread_run w) =
           (if install_completes w then qs @ [100] else qs)) \<and>
   (Finished True \<in> set (InstallThread_run w) \<longleftrightarrow> install_completes w)"
proof (cases "isl (upgrade_pip w) \<or> popen_error w \<noteq> None")
  case True
  then have ps: "progress_values (InstallThread_run w) = []"
    by (simp add: run_progress_shape)
  from True have "\<not> install_completes w"
    by (auto simp: install_completes_def)
  with ps show ?thesis by (simp add: run_finished_True_iff)
next
  case False
  define qs where "qs = progress_values (fst (stdout_loop 0 (stdout_reads w)))"
  have ps: "progress_values (InstallThread_run w) =
              qs @ (if install_completes w then [100] else [])"
    using False by (simp add: run_progress_shape qs_def)
  have b: "\<forall>q \<in> set qs. 0 < q \<and> q \<le> 95"
  proof
    fix q assume "q \<in> set qs"
    then have "min (0 + 3) 95 \<le> q \<and> q \<le> 95"
      unfolding qs_def by (rule stdout_loop_bounds)
    then show "0 < q \<and> q \<le> 95" by simp
  qed
  have s: "sorted qs"
    unfolding qs_def by (rule stdout_loop_sorted)
  have "sorted (qs @ [100])"
    using s b by (auto simp: sorted_append)
  with s ps have "sorted (progress_values (InstallThread_run w))"
    by simp
  moreover have "progress_values (InstallThread_run w) =
           (if install_completes w then qs @ [100] else qs)"
    using ps by simp
  ultimately show ?thesis using b by (auto simp: run_finished_True_iff)
qed

text \<open>
  A run of three output lines with exit status 0 emits 3, 6, 9 and then 100; the same
  run with exit status 1 emits 3, 6, 9 and no 100.
\<close>

theorem install_progress_monotone_capped_witness:
  "install_completes install_world_ok \<and>
   progress_values (InstallThread_run install_world_ok) = [3, 6, 9, 100] \<and>
   \<not> install_completes install_world_failed \<and>
   progress_values (InstallThread_run install_world_failed) = [3, 6, 9] \<and>
   100 \<notin> set (progress_values (InstallThread_run install_world_failed)) \<and>
   (\<exists>qs. (\<forall>q \<in> set qs. 0 < q \<and> q \<le> 95) \<and>
         progress_values (InstallThread_run install_world_ok) = qs @ [100])"
proof -
  have c: "install_completes install_world_ok"
    by (simp add: install_completes_def install_world_ok_def)
  have v: "progress_values (InstallThread_run install_world_ok) = [3, 6, 9, 100]"
    by (simp add: InstallThread_run_def install_world_ok_def run_command_events_def Let_def)
  have c': "\<not> install_completes install_world_failed"
    by (simp add: install_completes_def install_world_failed_def)
  have v': "progress_values (InstallThread_run install_world_failed) = [3, 6, 9]"
    by (simp add: InstallThread_run_def install_world_failed_def run_command_events_def Let_def)
  from install_progress_monotone_capped [of install_world_ok]
       install_progress_monotone_capped [of install_world_failed] c v c' v'
  show ?thesis by simp
qed

section \<open>Properties of WorkerThread\<close>

lemma worker_loop_ends:
  "\<not> is_Alive (obs n) \<Longrightarrow> i \<le> n \<Longrightarrow>
   \<exists>evs e. worker_loop obs i = Some (evs, e) \<and> Finished_signal \<notin> set evs"
proof (induction "n - i" arbitrary: i)
  case 0
  then have "i = n" by simp
  with "0.prems"(1) show ?case
    by (cases "obs n") (simp_all add: worker_loop.simps [of obs n])
next
  case (Suc k)
  show ?case
  proof (cases "obs i")
    case (Alive out)
    from Suc.hyps(2) Suc.prems(2) have "k = n - Suc i" "Suc i \<le> n" by simp_all
    from Suc.hyps(1) [OF this(1) Suc.prems(1) this(2)]
    obtain evs e where "worker_loop obs (Suc i) = Some (evs, e)" "Finished_signal \<notin> set evs"
      by blast
    with Alive show ?thesis
      by (simp add: worker_loop.simps [of obs i])
  qed (simp_all add: worker_loop.simps [of obs i])
qed

lemma after_loop_one_finished:
  "\<exists>evs. after_loop w e = evs @ [Finished_signal] \<and> Finished_signal \<notin> set evs"
  by (cases e; cases "communicate w") (auto simp: after_loop_def)

text \<open>
  Claim C6. Every session that ends emits exactly one \<open>finished_signal\<close>, as its last
  event, after every output and error event: when the script file is missing, when
  starting the child raises, and whenever the loop stops (the child exits, a stop is
  requested, or reading raises). The session ends under the hypothesis that the loop
  test eventually fails or a read raises; no finished event is duplicated.
\<close>

theorem worker_emits_finished_once:
  assumes "script_exists w \<and> popen_raises w = None \<longrightarrow> (\<exists>n. \<not> is_Alive (observe w n))"
  shows "\<exists>evs. WorkerThread_run script_path w = Some (evs @ [Finished_signal]) \<and>
               Finished_signal \<notin> set evs"
proof (cases "script_exists w \<and> popen_raises w = None")
  case False
  then show ?thesis
    by (cases "popen_raises w") (auto simp: WorkerThread_run_def)
next
  case True
  with assms obtain n where "\<not> is_Alive (observe w n)" by blast
  from worker_loop_ends [of "observe w" n 0, OF this]
  obtain evs e where l: "worker_loop (observe w) 0 = Some (evs, e)"
    and n1: "Finished_signal \<notin> set evs" by auto
  from after_loop_one_finished [of w e]
  obtain evs2 where a: "after_loop w e = evs2 @ [Finished_signal]"
    and n2: "Finished_signal \<notin> set evs2" by blast
  have "WorkerThread_run script_path w = Some ((evs @ evs2) @ [Finished_signal])"
    using True l a by (simp add: WorkerThread_run_def)
  moreover have "Finished_signal \<notin> set (evs @ evs2)"
    using n1 n2 by simp
  ultimately show ?thesis by blast
qed

text \<open>
  A session whose child prints two lines and is then stopped: the stop is seen at the
  third loop test.
\<close>

theorem worker_emits_finished_once_witness:
  "WorkerThread_run ''scripts/demo/script.py'' stopped_world =
     Some [Output_signal ''one'', Output_signal ''two'', Finished_signal] \<and>
   (\<exists>evs. WorkerThread_run ''scripts/demo/script.py'' stopped_world =
            Some (evs @ [Finished_signal]) \<and> Finished_signal \<notin> set evs)"
proof -
  have e: "\<not> is_Alive (observe stopped_world 2)"
    by (simp add: stopped_world_def)
  then have h: "script_exists stopped_world \<and> popen_raises stopped_world = None \<longrightarrow>
                  (\<exists>n. \<not> is_Alive (observe stopped_world n))"
    by blast
  have v: "WorkerThread_run ''scripts/demo/script.py'' stopped_world =
             Some [Output_signal ''one'', Output_signal ''two'', Finished_signal]"
    by (simp add: WorkerThread_run_def stopped_world_def worker_loop.simps after_loop_def
          strip_def lstrip_def rstrip_def isspace_def)
  from worker_emits_finished_once [OF h, of "''scripts/demo/script.py''"] v
  show ?thesis by simp
qed

text \<open>
  The hypothesis is needed: a session whose child never exits and that is never stopped
  does not return, and emits no \<open>finished_signal\<close>.
\<close>

lemma worker_loop_returns_only_if_ends:
  assumes "worker_loop obs i = Some r"
  shows "\<exists>n. \<not> is_Alive (obs n)"
proof (rule worker_loop.raw_induct [where P = "\<lambda>obs i r. \<exists>n. \<not> is_Alive (obs n)", OF _ assms])
  fix f :: "(nat \<Rightarrow> loop_obs) \<Rightarrow> nat \<Rightarrow> (worker_event list \<times> loop_end) option"
    and obs i r
  assume IH: "\<And>obs i r. f obs i = Some r \<Longrightarrow> \<exists>n. \<not> is_Alive (obs n)"
    and step: "(case obs i of
        Alive out \<Rightarrow>
          Option.bind (f obs (Suc i))
            (\<lambda>r. Some ((if out \<noteq> [] then [Output_signal (strip out)] else []) @ fst r, snd r))
      | ReadFails e \<Rightarrow> Some ([], LoopRaised e)
      | StopSeen \<Rightarrow> Some ([], LoopStopped)
      | Exited b \<Rightarrow> Some ([], LoopExited b)) = Some r"
  show "\<exists>n. \<not> is_Alive (obs n)"
  proof (cases "obs i")
    case (Alive out)
    with step obtain r' where "f obs (Suc i) = Some r'"
      by (auto simp: bind_eq_Some_conv)
    then show ?thesis by (rule IH)
  next
    case (ReadFails e)
    then have "\<not> is_Alive (obs i)" by simp
    then show ?thesis ..
  next
    case StopSeen
    then have "\<not> is_Alive (obs i)" by simp
    then show ?thesis ..
  next
    case (Exited b)
    then have "\<not> is_Alive (obs i)" by simp
    then show ?thesis ..
  qed
qed

lemma worker_loop_never_ends:
  "\<forall>n. is_Alive (obs n) \<Longrightarrow> worker_loop obs i = None"
  using worker_loop_returns_only_if_ends [of obs i]
  by (cases "worker_loop obs i") auto

lemma worker_never_finishes:
  assumes "script_exists w" and "popen_raises w = None" and "\<forall>n. is_Alive (observe w n)"
  shows "WorkerThread_run script_path w = None"
  using assms worker_loop_never_ends [of "observe w" 0]
  by (simp add: WorkerThread_run_def)

section \<open>Properties of ScriptExecutor\<close>

text \<open>
  The guard of \<open>run_script\<close>: while the worker held in \<open>worker_thread\<close> is running, a
  start request changes nothing and emits the busy notice only.
\<close>

lemma run_script_busy:
  "worker_isRunning ex \<Longrightarrow>
   run_script ex script_path script_dir python_exec script_name = (ex, [Exec_output Exec_busy])"
  by (simp add: run_script_def)

text \<open>
  Claim C4, evaluated. The guard looks at \<open>worker_thread\<close>, not at the child
  processes, and two sequences of events leave a child alive while the guard lets a
  start request through.

  First: \<open>a\<close> is started and stopped before its thread has reached line 788. \<open>stop\<close>
  finds \<open>self.process\<close> unset and kills nothing; the thread then starts the child,
  sees the flag cleared, emits \<open>finished_signal\<close> and returns; the slot clears
  \<open>worker_thread\<close>. The child of \<open>a\<close> is alive, and a request to run \<open>b\<close> is accepted:
  two children are alive.

  Second: \<open>a\<close> runs to its end, and \<open>b\<close> is started after the thread of \<open>a\<close> has
  returned but before the queued slot of \<open>a\<close> has run; when it runs it clears
  \<open>worker_thread\<close>, which by then holds the worker of \<open>b\<close>. The child of \<open>b\<close> is alive,
  and a request to run \<open>c\<close> is accepted.
\<close>

theorem run_script_accepted_with_live_child:
  "map process (workers (executor_after stop_before_start)) = [Child_live] \<and>
   snd (run_script (executor_after stop_before_start)
          ''scripts/b/script.py'' ''scripts/b'' ''scripts/b/.venv/bin/python'' ''b'') =
     [Exec_output (Exec_starting ''b''), Script_started ''b''] \<and>
   map process (workers (executor_after (stop_before_start @
       [Run_script ''scripts/b/script.py'' ''scripts/b'' ''scripts/b/.venv/bin/python'' ''b'',
        Thread 1 Starts_child]))) = [Child_live, Child_live] \<and>
   map process (workers (executor_after stale_slot)) = [Child_exited, Child_live] \<and>
   snd (run_script (executor_after stale_slot)
          ''scripts/c/script.py'' ''scripts/c'' ''scripts/c/.venv/bin/python'' ''c'') =
     [Exec_output (Exec_starting ''c''), Script_started ''c''] \<and>
   map process (workers (executor_after (stale_slot @
       [Run_script ''scripts/c/script.py'' ''scripts/c'' ''scripts/c/.venv/bin/python'' ''c'',
        Thread 2 Starts_child]))) = [Child_exited, Child_live, Child_live]"
  by (simp add: executor_after_def stop_before_start_def stale_slot_def executor_step_def
        executor_init_def run_script_def stop_script_def worker_isRunning_def update_worker_def
        WorkerThread_stop_def on_script_finished_def worker_step_def newly_finished_def Let_def)

section \<open>Properties of the provisioner\<close>



lemma count_list_0_iff: "count_list xs x = 0 \<longleftrightarrow> x \<notin> set xs"
  by (induction xs) simp_all

lemma no_start_in_finished [simp]:
  "Venv_thread_start d \<notin> set (on_venv_creation_finished sd ok r)"
  by (simp add: on_venv_creation_finished_def)

lemma count_start_in_finished [simp]:
  "count_list (on_venv_creation_finished sd ok r) (Venv_thread_start d) = 0"
  by (simp add: count_list_0_iff)









section \<open>Properties of the satisfaction check\<close>

lemma reported_missing_requirements [simp]:
  "reported_missing (snd (check_requirements P inst ls)) = []"
  by (induction ls) (auto simp: Let_def split: sum.splits option.splits)

lemma reported_missing_append:
  "reported_missing (xs @ ys) = reported_missing xs @ reported_missing ys"
  by (induction xs rule: reported_missing.induct) simp_all

lemma diagnosed_lines_append:
  "diagnosed_lines (xs @ ys) = diagnosed_lines xs @ diagnosed_lines ys"
  by (induction xs rule: diagnosed_lines.induct) simp_all

lemma check_dependencies_result:
  "fst (check_dependencies P dm dists (File_lines ls)) =
     (fst (check_requirements P (fst (get_installed_packages dm dists)) (requirement_lines ls)) = [])"
  by (simp add: check_dependencies_def Let_def)

lemma check_dependencies_missing:
  "reported_missing (snd (snd (check_dependencies P dm dists (File_lines ls)))) =
     fst (check_requirements P (fst (get_installed_packages dm dists)) (requirement_lines ls))"
  by (simp add: check_dependencies_def Let_def reported_missing_append)

lemma check_dependencies_diagnosed:
  "diagnosed_lines (snd (snd (check_dependencies P dm dists (File_lines ls)))) =
     diagnosed_lines
       (snd (check_requirements P (fst (get_installed_packages dm dists)) (requirement_lines ls)))"
  by (simp add: check_dependencies_def Let_def diagnosed_lines_append)

lemma malformed_raises:
  "isl (Requirement P l) \<Longrightarrow> isl (check_requirement P inst l)"
  by (cases "Requirement P l") (simp_all add: check_requirement_def)

lemma missing_without_malformed:
  "fst (check_requirements P inst (filter (\<lambda>l. \<not> isl (Requirement P l)) ls)) =
   fst (check_requirements P inst ls)"
proof (induction ls)
  case Nil
  then show ?case by simp
next
  case (Cons l ls)
  show ?case
  proof (cases "isl (Requirement P l)")
    case True
    then have "isl (check_requirement P inst l)" by (rule malformed_raises)
    then obtain e where "check_requirement P inst l = Inl e"
      by (cases "check_requirement P inst l") simp_all
    with True Cons.IH show ?thesis by (simp add: Let_def)
  next
    case False
    with Cons.IH show ?thesis
      by (simp add: Let_def split: sum.splits option.splits)
  qed
qed

lemma diagnosed_requirements:
  "diagnosed_lines (snd (check_requirements P inst ls)) =
   filter (\<lambda>l. isl (check_requirement P inst l)) ls"
  by (induction ls) (auto simp: Let_def split: sum.splits option.splits)

lemma count_list_filter:
  "count_list (filter Q xs) x = (if Q x then count_list xs x else 0)"
  by (induction xs) simp_all

lemma requirement_lines_filter:
  "requirement_lines (filter (\<lambda>l. \<not> Q (strip l)) ls) =
   filter (\<lambda>l. \<not> Q l) (requirement_lines ls)"
  by (induction ls) (simp_all add: requirement_lines_def)

text \<open>
  Claim C10. A requirement line that does not parse is skipped: the result and the
  list of missing entries are those of the manifest without its malformed lines (so the
  check returns true when the other lines are met), and the log holds one diagnostic for
  each occurrence of a malformed line.
\<close>

theorem malformed_lines_are_skipped:
  "fst (check_dependencies P dm dists (File_lines ls)) =
     fst (check_dependencies P dm dists
            (File_lines (filter (\<lambda>l. \<not> isl (Requirement P (strip l))) ls))) \<and>
   reported_missing (snd (snd (check_dependencies P dm dists (File_lines ls)))) =
     reported_missing (snd (snd (check_dependencies P dm dists
            (File_lines (filter (\<lambda>l. \<not> isl (Requirement P (strip l))) ls))))) \<and>
   (\<forall>l. isl (Requirement P l) \<longrightarrow>
        count_list (diagnosed_lines (snd (snd (check_dependencies P dm dists (File_lines ls))))) l =
        count_list (requirement_lines ls) l)"
proof -
  let ?inst = "fst (get_installed_packages dm dists)"
  have m: "fst (check_requirements P ?inst
                  (requirement_lines (filter (\<lambda>l. \<not> isl (Requirement P (strip l))) ls))) =
           fst (check_requirements P ?inst (requirement_lines ls))"
    using requirement_lines_filter [of "\<lambda>l. isl (Requirement P l)" ls]
    by (simp add: missing_without_malformed)
  have c: "count_list (diagnosed_lines
              (snd (snd (check_dependencies P dm dists (File_lines ls))))) l =
           count_list (requirement_lines ls) l" if "isl (Requirement P l)" for l
    using malformed_raises [OF that, of ?inst]
    by (simp add: check_dependencies_diagnosed diagnosed_requirements count_list_filter)
  show ?thesis
    using c by (simp add: check_dependencies_result check_dependencies_missing m)
qed

text \<open>
  A manifest with one met requirement, one comment and one malformed line is
  satisfied; the malformed line is logged once and is not reported as missing.
\<close>

theorem malformed_lines_are_skipped_witness:
  "isl (Requirement demo_packaging ''not a requirement'') \<and>
   fst (check_dependencies demo_packaging dm_init [(''requests'', ''2.31.0'')]
          (File_lines [''requests>=2,<3'', ''# pinned'', ''  not a requirement  ''])) \<and>
   reported_missing (snd (snd (check_dependencies demo_packaging dm_init
          [(''requests'', ''2.31.0'')]
          (File_lines [''requests>=2,<3'', ''# pinned'', ''  not a requirement  ''])))) = [] \<and>
   count_list (diagnosed_lines (snd (snd (check_dependencies demo_packaging dm_init
          [(''requests'', ''2.31.0'')]
          (File_lines [''requests>=2,<3'', ''# pinned'', ''  not a requirement  '']))))) 
      ''not a requirement'' = 1"
proof -
  have b: "isl (Requirement demo_packaging ''not a requirement'')"
    by (simp add: demo_packaging_def demo_Requirement_def)
  have s1: "strip ''requests>=2,<3'' = ''requests>=2,<3''"
    by (simp add: strip_def lstrip_def rstrip_def isspace_def)
  have s2: "strip ''# pinned'' = ''# pinned''"
    by (simp add: strip_def lstrip_def rstrip_def isspace_def)
  have s3: "strip ''  not a requirement  '' = ''not a requirement''"
    by (simp add: strip_def lstrip_def rstrip_def isspace_def)
  have r: "requirement_lines [''requests>=2,<3'', ''# pinned'', ''  not a requirement  ''] =
             [''requests>=2,<3'', ''not a requirement'']"
    by (simp add: requirement_lines_def s1 s2 s3 startswith_def)
  have f: "filter (\<lambda>l. \<not> isl (Requirement demo_packaging (strip l)))
             [''requests>=2,<3'', ''# pinned'', ''  not a requirement  ''] = [''requests>=2,<3'']"
    by (simp add: s1 s2 s3 demo_packaging_def demo_Requirement_def)
  have r': "requirement_lines [''requests>=2,<3''] = [''requests>=2,<3'']"
    by (simp add: requirement_lines_def s1 startswith_def)
  have lw: "lower ''requests'' = ''requests''"
    by (simp add: lower_def lower_char_def)
  have ok: "check_requirement demo_packaging (build_index [(''requests'', ''2.31.0'')])
              ''requests>=2,<3'' = Inr None"
    by (simp add: check_requirement_def demo_packaging_def demo_Requirement_def
          demo_contains_def build_index_def lw)
  have v: "check_dependencies demo_packaging dm_init [(''requests'', ''2.31.0'')]
             (File_lines [''requests>=2,<3'']) =
           (True, dm_init\<lparr>installed_packages_cache :=
                     Some (build_index [(''requests'', ''2.31.0'')])\<rparr>,
            [Log_output Msg_all_satisfied])"
    by (simp add: check_dependencies_def get_installed_packages_def dm_init_def r' ok Let_def)
  from malformed_lines_are_skipped
         [of demo_packaging dm_init "[(''requests'', ''2.31.0'')]"
             "[''requests>=2,<3'', ''# pinned'', ''  not a requirement  '']"]
  show ?thesis
    unfolding f v r using b by simp
qed

subsection \<open>Letter case of package names\<close>

lemma build_index_recased:
  assumes "\<forall>n. lower (g n) = lower n"
  shows "build_index (map (\<lambda>(n, v). (g n, v)) dists) = build_index dists"
proof -
  have "foldl (\<lambda>m (n, v). m(lower n \<mapsto> v)) m0 (map (\<lambda>(n, v). (g n, v)) dists) =
        foldl (\<lambda>m (n, v). m(lower n \<mapsto> v)) m0 dists" for m0
  proof (induction dists arbitrary: m0)
    case Nil
    then show ?case by simp
  next
    case (Cons d dists)
    obtain n v where d: "d = (n, v)" by (cases d)
    from assms have "lower (g n) = lower n" by simp
    with Cons.IH d show ?case by simp
  qed
  then show ?thesis by (simp add: build_index_def)
qed

lemma check_requirement_recased:
  assumes "\<forall>n. lower (f n) = lower n"
  shows "check_requirement (P\<lparr>req_name := \<lambda>r. f (req_name P r)\<rparr>) inst l = check_requirement P inst l"
  using assms
  by (auto simp: check_requirement_def Let_def split: sum.splits option.splits bool.splits)

lemma check_requirements_recased:
  assumes "\<forall>n. lower (f n) = lower n"
  shows "check_requirements (P\<lparr>req_name := \<lambda>r. f (req_name P r)\<rparr>) inst ls =
         check_requirements P inst ls"
proof (induction ls)
  case Nil
  then show ?case by simp
next
  case (Cons l ls)
  from check_requirement_recased [OF assms, of P inst l] Cons.IH
  show ?case by (simp only: check_requirements.simps)
qed

lemma get_installed_packages_recased:
  assumes "\<forall>n. lower (g n) = lower n"
  shows "get_installed_packages dm (map (\<lambda>(n, v). (g n, v)) dists) =
         get_installed_packages dm dists"
  by (cases "installed_packages_cache dm")
     (simp_all add: get_installed_packages_def build_index_recased [OF assms])

text \<open>
  Claim C9. The check compares lower-cased names: replace the name of every parsed
  requirement by \<open>f\<close> of it and the name of every installed distribution by \<open>g\<close> of
  it, where \<open>f\<close> and \<open>g\<close> change nothing but the letter case (the lower-cased name stays
  the same); the result of \<open>check_dependencies\<close> is the same.
\<close>

theorem check_dependencies_ignores_case:
  assumes "\<forall>n. lower (f n) = lower n" and "\<forall>n. lower (g n) = lower n"
  shows "fst (check_dependencies (P\<lparr>req_name := \<lambda>r. f (req_name P r)\<rparr>) dm
                (map (\<lambda>(n, v). (g n, v)) dists) manifest) =
         fst (check_dependencies P dm dists manifest)"
proof (cases manifest)
  case No_file
  then show ?thesis by (simp add: check_dependencies_def)
next
  case (Unreadable e)
  then show ?thesis by (simp add: check_dependencies_def)
next
  case (File_lines ls)
  then show ?thesis
    by (simp add: check_dependencies_result check_requirements_recased [OF assms(1)]
          get_installed_packages_recased [OF assms(2)])
qed

text \<open>
  The manifest names \<open>requests\<close> and the metadata \<open>requests\<close>; with the manifest's name
  written \<open>Requests\<close> and the metadata's \<open>REQUESTS\<close> the check still succeeds.
\<close>

theorem check_dependencies_ignores_case_witness:
  "fst (check_dependencies (demo_packaging\<lparr>req_name := \<lambda>r. capitalised (req_name demo_packaging r)\<rparr>)
          dm_init [(''REQUESTS'', ''2.31.0'')] (File_lines [''requests>=2,<3''])) \<and>
   fst (check_dependencies demo_packaging dm_init [(''requests'', ''2.31.0'')]
          (File_lines [''requests>=2,<3'']))"
proof -
  have f: "\<forall>n. lower (capitalised n) = lower n"
    by (simp add: capitalised_def lower_def lower_char_def)
  have g: "\<forall>n. lower (upper_cased n) = lower n"
    by (simp add: upper_cased_def lower_def lower_char_def)
  have s1: "strip ''requests>=2,<3'' = ''requests>=2,<3''"
    by (simp add: strip_def lstrip_def rstrip_def isspace_def)
  have lw: "lower ''requests'' = ''requests''"
    by (simp add: lower_def lower_char_def)
  have v: "fst (check_dependencies demo_packaging dm_init [(''requests'', ''2.31.0'')]
          (File_lines [''requests>=2,<3'']))"
    by (simp add: check_dependencies_def get_installed_packages_def dm_init_def
          requirement_lines_def s1 startswith_def check_requirement_def demo_packaging_def
          demo_Requirement_def demo_contains_def build_index_def lw Let_def)
  from check_dependencies_ignores_case
         [OF f g, of demo_packaging dm_init "[(''requests'', ''2.31.0'')]"
             "File_lines [''requests>=2,<3'']"] v
  show ?thesis by (simp add: upper_cased_def)
qed

subsection \<open>The cache of the package index\<close>

lemma get_installed_packages_cleared:
  "get_installed_packages (clear_packages_cache dm) dists =
     (build_index dists, dm\<lparr>installed_packages_cache := Some (build_index dists)\<rparr>)"
  by (simp add: get_installed_packages_def clear_packages_cache_def)

lemma get_installed_packages_cached:
  "installed_packages_cache dm = Some c \<Longrightarrow> get_installed_packages dm dists = (c, dm)"
  by (simp add: get_installed_packages_def)

text \<open>
  \<open>_on_install_finished\<close> clears the cache of the package index: whatever snapshot
  the cache held, the next \<open>check_dependencies\<close> builds the index from what
  \<open>distributions()\<close> yields at that moment.
\<close>

lemma cleared_cache_rebuilds_index:
  "fst (check_dependencies P (fst (on_install_finished dm script_dir True)) dists
          (File_lines ls)) =
     (fst (check_requirements P (build_index dists) (requirement_lines ls)) = []) \<and>
   reported_missing (snd (snd (check_dependencies P
          (fst (on_install_finished dm script_dir True)) dists (File_lines ls)))) =
     fst (check_requirements P (build_index dists) (requirement_lines ls)) \<and>
   installed_packages_cache (fst (snd (check_dependencies P
          (fst (on_install_finished dm script_dir True)) dists (File_lines ls)))) =
     Some (build_index dists)"
proof -
  have c: "fst (on_install_finished dm script_dir True) = clear_packages_cache dm"
    by (simp add: on_install_finished_def)
  have "installed_packages_cache (fst (snd (check_dependencies P (clear_packages_cache dm)
          dists (File_lines ls)))) = Some (build_index dists)"
    by (simp add: check_dependencies_def get_installed_packages_cleared Let_def)
  then show ?thesis
    unfolding c
    by (simp add: check_dependencies_result check_dependencies_missing
          get_installed_packages_cleared)
qed

text \<open>
  Without the invalidation the check would read the cached snapshot and not the
  distributions.
\<close>

lemma cached_index_is_used:
  "installed_packages_cache dm = Some c \<Longrightarrow>
   fst (check_dependencies P dm dists (File_lines ls)) =
     (fst (check_requirements P c (requirement_lines ls)) = [])"
  by (simp add: check_dependencies_result get_installed_packages_cached)

text \<open>
  An installation into the environment of another interpreter than the application's
  does not change what \<open>distributions()\<close> yields, so the check that follows it is the
  check of the packages of the application.
\<close>

lemma pip_install_elsewhere:
  "python_exec \<noteq> sys_executable w \<Longrightarrow>
   distributions (pip_install w python_exec installed) = distributions w"
  by (simp add: distributions_def pip_install_def)

lemma check_after_install_elsewhere:
  "python_exec \<noteq> sys_executable w \<Longrightarrow>
   check_after_install P w dm script_dir python_exec installed manifest =
   check_dependencies P (clear_packages_cache dm) (distributions w) manifest"
  by (simp add: check_after_install_def pip_install_elsewhere on_install_finished_def)

text \<open>
  Claim C5, evaluated. The manifest of \<open>scripts/demo\<close> asks for \<open>numpy\<close> and
  \<open>requests>=2,<3\<close>; the interpreter of the application has \<open>numpy\<close> only, and the
  check fails. The installation then succeeds: pip, run by the interpreter of the
  script's environment, makes \<open>numpy 1.26.0\<close> and \<open>requests 2.31.0\<close> available
  there, and \<open>_on_install_finished\<close> clears the cache. The check that follows rebuilds
  the index, but from the distributions of the application's interpreter: it fails as
  before and reports \<open>requests\<close> as missing, although the environment that the
  installation filled satisfies the manifest.
\<close>

theorem check_after_install_misses_the_environment:
  "\<not> fst (check_dependencies demo_packaging dm_init (distributions demo_world)
           (File_lines [''numpy'', ''requests>=2,<3''])) \<and>
   \<not> fst (check_after_install demo_packaging demo_world
           (fst (snd (check_dependencies demo_packaging dm_init (distributions demo_world)
                        (File_lines [''numpy'', ''requests>=2,<3'']))))
           ''scripts/demo'' ''scripts/demo/.venv/bin/python''
           [(''numpy'', ''1.26.0''), (''requests'', ''2.31.0'')]
           (File_lines [''numpy'', ''requests>=2,<3''])) \<and>
   reported_missing (snd (snd (check_after_install demo_packaging demo_world
           (fst (snd (check_dependencies demo_packaging dm_init (distributions demo_world)
                        (File_lines [''numpy'', ''requests>=2,<3'']))))
           ''scripts/demo'' ''scripts/demo/.venv/bin/python''
           [(''numpy'', ''1.26.0''), (''requests'', ''2.31.0'')]
           (File_lines [''numpy'', ''requests>=2,<3''])))) = [''requests<3,>=2''] \<and>
   fst (check_dependencies demo_packaging dm_init
          (site_packages (pip_install demo_world ''scripts/demo/.venv/bin/python''
                            [(''numpy'', ''1.26.0''), (''requests'', ''2.31.0'')])
             ''scripts/demo/.venv/bin/python'')
          (File_lines [''numpy'', ''requests>=2,<3'']))"
proof -
  have s1: "strip ''requests>=2,<3'' = ''requests>=2,<3''" "strip ''numpy'' = ''numpy''"
    by (simp_all add: strip_def lstrip_def rstrip_def isspace_def)
  have rl: "requirement_lines [''numpy'', ''requests>=2,<3''] = [''numpy'', ''requests>=2,<3'']"
    by (simp add: requirement_lines_def s1 startswith_def)
  have lw: "lower ''requests'' = ''requests''" "lower ''numpy'' = ''numpy''"
    by (simp_all add: lower_def lower_char_def)
  have d: "distributions demo_world = [(''numpy'', ''1.26.0'')]"
    by (simp add: distributions_def demo_world_def)
  have d': "distributions (pip_install demo_world ''scripts/demo/.venv/bin/python''
              [(''numpy'', ''1.26.0''), (''requests'', ''2.31.0'')]) = [(''numpy'', ''1.26.0'')]"
    by (simp add: distributions_def pip_install_def demo_world_def)
  have e: "site_packages (pip_install demo_world ''scripts/demo/.venv/bin/python''
                            [(''numpy'', ''1.26.0''), (''requests'', ''2.31.0'')])
             ''scripts/demo/.venv/bin/python'' =
           [(''numpy'', ''1.26.0''), (''requests'', ''2.31.0'')]"
    by (simp add: pip_install_def demo_world_def)
  have n1: "check_requirement demo_packaging (build_index [(''numpy'', ''1.26.0'')]) ''numpy'' =
              Inr None"
    by (simp add: check_requirement_def demo_packaging_def demo_Requirement_def
          build_index_def lw)
  have r1: "check_requirement demo_packaging (build_index [(''numpy'', ''1.26.0'')])
              ''requests>=2,<3'' = Inr (Some ''requests<3,>=2'')"
    by (simp add: check_requirement_def demo_packaging_def demo_Requirement_def
          build_index_def lw)
  have n2: "check_requirement demo_packaging
              (build_index [(''numpy'', ''1.26.0''), (''requests'', ''2.31.0'')]) ''numpy'' =
              Inr None"
    by (simp add: check_requirement_def demo_packaging_def demo_Requirement_def
          build_index_def lw)
  have r2: "check_requirement demo_packaging
              (build_index [(''numpy'', ''1.26.0''), (''requests'', ''2.31.0'')])
              ''requests>=2,<3'' = Inr None"
    by (simp add: check_requirement_def demo_packaging_def demo_Requirement_def
          demo_contains_def build_index_def lw)
  have c1: "check_requirements demo_packaging (build_index [(''numpy'', ''1.26.0'')])
              [''numpy'', ''requests>=2,<3''] = ([''requests<3,>=2''], [])"
    by (simp add: n1 r1)
  have c2: "check_requirements demo_packaging
              (build_index [(''numpy'', ''1.26.0''), (''requests'', ''2.31.0'')])
              [''numpy'', ''requests>=2,<3''] = ([], [])"
    by (simp add: n2 r2)
  have pre: "check_dependencies demo_packaging dm_init [(''numpy'', ''1.26.0'')]
               (File_lines [''numpy'', ''requests>=2,<3'']) =
             (False,
              dm_init\<lparr>installed_packages_cache := Some (build_index [(''numpy'', ''1.26.0'')])\<rparr>,
              [Log_output (Msg_problems [''requests<3,>=2''])])"
    by (simp add: check_dependencies_def get_installed_packages_def dm_init_def rl c1 Let_def
          del: check_requirements.simps)
  have post: "check_after_install demo_packaging demo_world
           (dm_init\<lparr>installed_packages_cache := Some (build_index [(''numpy'', ''1.26.0'')])\<rparr>)
           ''scripts/demo'' ''scripts/demo/.venv/bin/python''
           [(''numpy'', ''1.26.0''), (''requests'', ''2.31.0'')]
           (File_lines [''numpy'', ''requests>=2,<3'']) =
             (False,
              dm_init\<lparr>installed_packages_cache := Some (build_index [(''numpy'', ''1.26.0'')])\<rparr>,
              [Log_output (Msg_problems [''requests<3,>=2''])])"
    unfolding check_after_install_def d'
    by (simp add: check_dependencies_def get_installed_packages_def on_install_finished_def
          clear_packages_cache_def dm_init_def rl c1 Let_def del: check_requirements.simps)
  have env: "fst (check_dependencies demo_packaging dm_init
               [(''numpy'', ''1.26.0''), (''requests'', ''2.31.0'')]
               (File_lines [''numpy'', ''requests>=2,<3'']))"
    by (simp add: check_dependencies_def get_installed_packages_def dm_init_def rl c2 Let_def
          del: check_requirements.simps)
  show ?thesis
    unfolding d e pre using env by (simp add: post)
qed

subsection \<open>The result of the check and the list of missing entries\<close>

lemma check_requirement_cases:
  assumes "comparison_never_raises P inst [l]"
  shows "check_requirement P inst l =
     (case Requirement P l of
        Inl e \<Rightarrow> Inl e
      | Inr req \<Rightarrow> Inr (if unmet P inst l then Some (missing_entry P inst req) else None))"
proof (cases "Requirement P l")
  case (Inl e)
  then show ?thesis by (simp add: check_requirement_def)
next
  case (Inr req)
  show ?thesis
  proof (cases "inst (lower (req_name P req))")
    case None
    with Inr show ?thesis
      by (simp add: check_requirement_def unmet_def missing_entry_def)
  next
    case (Some ver)
    with assms Inr have "\<not> isl (spec_contains P (req_specifier P req) ver)"
      by (simp add: comparison_never_raises_def)
    then obtain b where "spec_contains P (req_specifier P req) ver = Inr b"
      by (cases "spec_contains P (req_specifier P req) ver") simp_all
    with Inr Some show ?thesis
      by (cases b) (simp_all add: check_requirement_def unmet_def missing_entry_def satisfied_by_def)
  qed
qed

lemma comparison_never_raises_Cons:
  "comparison_never_raises P inst (l # ls) \<longleftrightarrow>
   comparison_never_raises P inst [l] \<and> comparison_never_raises P inst ls"
  by (auto simp: comparison_never_raises_def)

lemma check_requirements_missing:
  "comparison_never_raises P inst ls \<Longrightarrow>
   fst (check_requirements P inst ls) =
     map (\<lambda>l. missing_entry P inst (projr (Requirement P l))) (filter (unmet P inst) ls)"
proof (induction ls)
  case Nil
  then show ?case by simp
next
  case (Cons l ls)
  from Cons.prems have one: "comparison_never_raises P inst [l]"
    and rest: "comparison_never_raises P inst ls"
    by (simp_all add: comparison_never_raises_Cons [of P inst l ls])
  have u: "unmet P inst l \<Longrightarrow> \<not> isl (Requirement P l)"
    by (cases "Requirement P l") (simp_all add: unmet_def)
  show ?case
  proof (cases "Requirement P l")
    case (Inl e)
    then have "\<not> unmet P inst l" by (simp add: unmet_def)
    with Inl Cons.IH [OF rest] check_requirement_cases [OF one] show ?thesis
      by (simp add: Let_def)
  next
    case (Inr req)
    with Cons.IH [OF rest] check_requirement_cases [OF one] show ?thesis
      by (simp add: Let_def)
  qed
qed

lemma unmet_iff:
  "\<not> unmet P inst l \<longleftrightarrow>
   (\<forall>req. Requirement P l = Inr req \<longrightarrow>
      (\<exists>ver. inst (lower (req_name P req)) = Some ver \<and>
             satisfied_by P (req_specifier P req) ver))"
  by (cases "Requirement P l") (auto simp: unmet_def split: option.splits)

text \<open>
  Claim C1, as amended. Let the library compare the installed versions without raising.
  Then \<open>check_dependencies\<close> returns true exactly when every requirement line that
  parses names a package of the index whose installed version satisfies the specifier
  set of the line. When exactly one line is unmet, the list of missing entries holds
  exactly one entry: \<open>str(req)\<close>, with no annotation, when the package is absent; the
  lower-cased name with the required specifier set and the installed version when the
  package is installed at a version that violates it.
\<close>

theorem check_dependencies_iff_all_met:
  assumes "comparison_never_raises P (fst (get_installed_packages dm dists)) (requirement_lines ls)"
  shows "(fst (check_dependencies P dm dists (File_lines ls)) \<longleftrightarrow>
            (\<forall>l \<in> set (requirement_lines ls). \<forall>req. Requirement P l = Inr req \<longrightarrow>
               (\<exists>ver. fst (get_installed_packages dm dists) (lower (req_name P req)) = Some ver \<and>
                      satisfied_by P (req_specifier P req) ver))) \<and>
         (\<forall>l req. filter (unmet P (fst (get_installed_packages dm dists))) (requirement_lines ls) = [l]
                    \<and> Requirement P l = Inr req \<longrightarrow>
            reported_missing (snd (snd (check_dependencies P dm dists (File_lines ls)))) =
              [case fst (get_installed_packages dm dists) (lower (req_name P req)) of
                 None \<Rightarrow> req_str P req
               | Some ver \<Rightarrow>
                   version_mismatch_entry (lower (req_name P req))
                     (spec_str P (req_specifier P req)) ver])"
proof -
  let ?inst = "fst (get_installed_packages dm dists)"
  let ?reqs = "requirement_lines ls"
  have m: "fst (check_requirements P ?inst ?reqs) =
             map (\<lambda>l. missing_entry P ?inst (projr (Requirement P l))) (filter (unmet P ?inst) ?reqs)"
    by (rule check_requirements_missing [OF assms])
  have "fst (check_dependencies P dm dists (File_lines ls)) \<longleftrightarrow>
          (\<forall>l \<in> set ?reqs. \<not> unmet P ?inst l)"
    by (simp add: check_dependencies_result m filter_empty_conv)
  then have first: "fst (check_dependencies P dm dists (File_lines ls)) \<longleftrightarrow>
            (\<forall>l \<in> set ?reqs. \<forall>req. Requirement P l = Inr req \<longrightarrow>
               (\<exists>ver. ?inst (lower (req_name P req)) = Some ver \<and>
                      satisfied_by P (req_specifier P req) ver))"
    by (simp add: unmet_iff)
  have second: "reported_missing (snd (snd (check_dependencies P dm dists (File_lines ls)))) =
              [case ?inst (lower (req_name P req)) of
                 None \<Rightarrow> req_str P req
               | Some ver \<Rightarrow>
                   version_mismatch_entry (lower (req_name P req))
                     (spec_str P (req_specifier P req)) ver]"
    if "filter (unmet P ?inst) ?reqs = [l]" and "Requirement P l = Inr req" for l req
    using that by (simp add: check_dependencies_missing m missing_entry_def split: option.splits)
  from first second show ?thesis by blast
qed

text \<open>
  The manifest \<open>requests>=2,<3\<close> against an index that holds \<open>requests 3.0.0\<close>
  (metadata name \<open>Requests\<close>): the check fails and reports the one entry, with the
  required specifier set and the installed version.
\<close>

theorem check_dependencies_iff_all_met_witness:
  "comparison_never_raises demo_packaging
     (fst (get_installed_packages dm_init [(''Requests'', ''3.0.0'')]))
     (requirement_lines [''requests>=2,<3'']) \<and>
   \<not> fst (check_dependencies demo_packaging dm_init [(''Requests'', ''3.0.0'')]
            (File_lines [''requests>=2,<3''])) \<and>
   reported_missing (snd (snd (check_dependencies demo_packaging dm_init
            [(''Requests'', ''3.0.0'')] (File_lines [''requests>=2,<3''])))) =
     [version_mismatch_entry ''requests'' ''<3,>=2'' ''3.0.0'']"
proof -
  have lw: "lower ''requests'' = ''requests''" "lower ''Requests'' = ''requests''"
    by (simp_all add: lower_def lower_char_def)
  have inst: "fst (get_installed_packages dm_init [(''Requests'', ''3.0.0'')]) =
                [''requests'' \<mapsto> ''3.0.0'']"
    by (simp add: get_installed_packages_def dm_init_def build_index_def lw)
  have s1: "strip ''requests>=2,<3'' = ''requests>=2,<3''"
    by (simp add: strip_def lstrip_def rstrip_def isspace_def)
  have rl: "requirement_lines [''requests>=2,<3''] = [''requests>=2,<3'']"
    by (simp add: requirement_lines_def s1 startswith_def)
  have p: "Requirement demo_packaging ''requests>=2,<3'' =
             Inr \<lparr>demo_name = ''requests'', demo_clauses = [''<3'', ''>=2'']\<rparr>"
    by (simp add: demo_packaging_def demo_Requirement_def)
  have c: "spec_contains demo_packaging [''<3'', ''>=2''] ''3.0.0'' = Inr False"
    by (simp add: demo_packaging_def demo_contains_def)
  have sel: "req_name demo_packaging \<lparr>demo_name = ''requests'', demo_clauses = [''<3'', ''>=2'']\<rparr>
               = ''requests''"
    "req_specifier demo_packaging \<lparr>demo_name = ''requests'', demo_clauses = [''<3'', ''>=2'']\<rparr>
               = [''<3'', ''>=2'']"
    "spec_len demo_packaging [''<3'', ''>=2''] = 2"
    "spec_str demo_packaging [''<3'', ''>=2''] = ''<3,>=2''"
    by (simp_all add: demo_packaging_def)
  have h: "comparison_never_raises demo_packaging
     (fst (get_installed_packages dm_init [(''Requests'', ''3.0.0'')]))
     (requirement_lines [''requests>=2,<3''])"
    unfolding inst rl by (simp add: comparison_never_raises_def p sel lw c)
  have u: "filter (unmet demo_packaging (fst (get_installed_packages dm_init
                      [(''Requests'', ''3.0.0'')])))
             (requirement_lines [''requests>=2,<3'']) = [''requests>=2,<3'']"
    unfolding inst rl by (simp add: unmet_def p sel lw c satisfied_by_def)
  note t = check_dependencies_iff_all_met [OF h]
  from t have "\<not> fst (check_dependencies demo_packaging dm_init [(''Requests'', ''3.0.0'')]
            (File_lines [''requests>=2,<3'']))"
    unfolding inst rl by (simp add: p sel lw c satisfied_by_def)
  moreover from t u p have "reported_missing (snd (snd (check_dependencies demo_packaging dm_init
            [(''Requests'', ''3.0.0'')] (File_lines [''requests>=2,<3''])))) =
     [case fst (get_installed_packages dm_init [(''Requests'', ''3.0.0'')])
             (lower (req_name demo_packaging
                \<lparr>demo_name = ''requests'', demo_clauses = [''<3'', ''>=2'']\<rparr>)) of
        None \<Rightarrow> req_str demo_packaging \<lparr>demo_name = ''requests'', demo_clauses = [''<3'', ''>=2'']\<rparr>
      | Some ver \<Rightarrow>
          version_mismatch_entry
            (lower (req_name demo_packaging
                \<lparr>demo_name = ''requests'', demo_clauses = [''<3'', ''>=2'']\<rparr>))
            (spec_str demo_packaging (req_specifier demo_packaging
                \<lparr>demo_name = ''requests'', demo_clauses = [''<3'', ''>=2'']\<rparr>)) ver]"
    by blast
  then have "reported_missing (snd (snd (check_dependencies demo_packaging dm_init
            [(''Requests'', ''3.0.0'')] (File_lines [''requests>=2,<3''])))) =
     [version_mismatch_entry ''requests'' ''<3,>=2'' ''3.0.0'']"
    unfolding inst by (simp add: sel lw)
  ultimately show ?thesis using h by blast
qed

text \<open>
  The manifest \<open>requests>=2,<3\<close> against an empty index: the check fails and the one
  entry reported is \<open>str(req)\<close>, that is \<open>requests<3,>=2\<close>; it carries no
  \<open>(not installed)\<close> annotation. And against an index whose version of \<open>requests\<close> the
  library cannot compare (it raises): the line is logged and skipped, and the check
  succeeds although the installed version does not satisfy the specifier set.
\<close>

theorem missing_entry_not_annotated_counterexample:
  "\<not> fst (check_dependencies demo_packaging dm_init [] (File_lines [''requests>=2,<3''])) \<and>
   reported_missing (snd (snd (check_dependencies demo_packaging dm_init []
       (File_lines [''requests>=2,<3''])))) = [''requests<3,>=2''] \<and>
   reported_missing (snd (snd (check_dependencies demo_packaging dm_init []
       (File_lines [''requests>=2,<3''])))) \<noteq> [''requests>=2,<3 (not installed)''] \<and>
   \<not> endswith (hd (reported_missing (snd (snd (check_dependencies demo_packaging dm_init []
       (File_lines [''requests>=2,<3''])))))) ''(not installed)'' \<and>
   fst (check_dependencies demo_packaging dm_init [(''requests'', ''unknown'')]
       (File_lines [''requests>=2,<3''])) \<and>
   \<not> satisfied_by demo_packaging [''<3'', ''>=2''] ''unknown''"
proof -
  have s1: "strip ''requests>=2,<3'' = ''requests>=2,<3''"
    by (simp add: strip_def lstrip_def rstrip_def isspace_def)
  have rl: "requirement_lines [''requests>=2,<3''] = [''requests>=2,<3'']"
    by (simp add: requirement_lines_def s1 startswith_def)
  have lw: "lower ''requests'' = ''requests''"
    by (simp add: lower_def lower_char_def)
  have v: "check_dependencies demo_packaging dm_init [] (File_lines [''requests>=2,<3'']) =
             (False, dm_init\<lparr>installed_packages_cache := Some Map.empty\<rparr>,
              [Log_output (Msg_problems [''requests<3,>=2''])])"
    by (simp add: check_dependencies_def get_installed_packages_def dm_init_def build_index_def
          rl check_requirement_def demo_packaging_def demo_Requirement_def lw Let_def)
  have u: "fst (check_dependencies demo_packaging dm_init [(''requests'', ''unknown'')]
             (File_lines [''requests>=2,<3'']))"
    by (simp add: check_dependencies_def get_installed_packages_def dm_init_def build_index_def
          rl check_requirement_def demo_packaging_def demo_Requirement_def demo_contains_def
          lw Let_def)
  have n: "\<not> satisfied_by demo_packaging [''<3'', ''>=2''] ''unknown''"
    by (simp add: satisfied_by_def demo_packaging_def demo_contains_def)
  show ?thesis
    unfolding v using u n by (simp add: endswith_def)
qed

section \<open>Properties of the run request\<close>

lemma get_script_dir_differs:
  assumes "\<not> startswith script_name ''/''"
  shows "get_script_dir script_name \<noteq> script_name"
proof -
  have "get_script_dir script_name = ''scripts/'' @ script_name"
    using assms by (simp add: get_script_dir_def os_path_join_def endswith_def)
  then have "length (get_script_dir script_name) = 8 + length script_name"
    by simp
  then show ?thesis by auto
qed

text \<open>
  For every script whose name is not an absolute path, the window's slot receives the
  directory of the script where it expects its name, finds it different from the
  selected script, and does not call \<open>_prepare_and_run_script\<close>.
\<close>

lemma successful_install_never_reruns:
  assumes "\<not> startswith script_name ''/''"
  shows "Call_prepare_and_run_script n \<notin>
           set (run_request_with_install existing script_name python_exec True)"
proof -
  note d = get_script_dir_differs [OF assms]
  show ?thesis
    by (cases "get_script_path existing script_name")
       (simp_all add: run_request_with_install_def prepare_and_run_script_def
          check_and_install_dependencies_then_run_def install_dependencies_def
          on_install_finished_def on_dependencies_installed_def d dm_init_def
          install_thread_running_def Let_def)
qed

text \<open>
  Claim C2, evaluated. The script \<open>demo\<close> is selected, its environment exists, its
  dependencies are missing and the user accepts their installation. When the
  installation succeeds, \<open>dependencies_installed_signal\<close> carries \<open>scripts/demo\<close>; the
  slot compares it with the selected name \<open>demo\<close>, logs that the installation was for
  another script, and the run is not resumed.
\<close>

theorem successful_install_is_discarded:
  "run_request_with_install [''scripts/demo/script.py'', ''scripts/demo/requirements.txt'']
       ''demo'' ''scripts/demo/.venv/bin/python'' True =
     [Mw_log Mw_install_ok, Mw_log (Mw_other_script ''scripts/demo''),
      Call_clear_packages_cache, Progress_bar_reset]"
proof -
  have j: "os_path_join ''scripts'' ''demo'' = ''scripts/demo''"
    by (simp add: os_path_join_def startswith_def endswith_def)
  have j2: "os_path_join ''scripts/demo'' ''script.py'' = ''scripts/demo/script.py''"
    "os_path_join ''scripts/demo'' ''requirements.txt'' = ''scripts/demo/requirements.txt''"
    by (simp_all add: os_path_join_def startswith_def endswith_def)
  show ?thesis
    by (simp add: run_request_with_install_def prepare_and_run_script_def get_script_path_def
          get_script_dir_def j j2 check_and_install_dependencies_then_run_def
          install_dependencies_def on_install_finished_def on_dependencies_installed_def
          dm_init_def install_thread_running_def Let_def)
qed

section \<open>Properties of the requirement analyzer\<close>















end
